theory Spec2Isabelle
  imports Complex_Main
begin

section \<open>Text utilities\<close>

text \<open>
  Python \<open>str\<close> values are modelled as \<open>string\<close> (lists of 8-bit characters) and
  restricted to ASCII: \<open>lower\<close>, \<open>strip\<close>, \<open>\d\<close>, \<open>\s\<close> and \<open>\w\<close> are the ASCII
  versions of the Python operations. Glyphs outside ASCII in message literals of the
  source are left out of the literals below.
\<close>

definition digit_chars :: "char list" where
  "digit_chars = ''0123456789''"

definition upper_chars :: "char list" where
  "upper_chars = ''ABCDEFGHIJKLMNOPQRSTUVWXYZ''"

definition lower_chars :: "char list" where
  "lower_chars = ''abcdefghijklmnopqrstuvwxyz''"

definition space_chars :: "char list" where
  "space_chars = [CHR '' '', CHR 0x09, CHR 0x0A, CHR 0x0B, CHR 0x0C, CHR 0x0D]"

definition word_chars :: "char list" where
  "word_chars = lower_chars @ upper_chars @ digit_chars @ ''_''"

definition is_digit :: "char \<Rightarrow> bool" where
  "is_digit c = (c \<in> set digit_chars)"

definition is_space :: "char \<Rightarrow> bool" where
  "is_space c = (c \<in> set space_chars)"

definition is_word :: "char \<Rightarrow> bool" where
  "is_word c = (c \<in> set word_chars)"

definition lower_char :: "char \<Rightarrow> char" where
  "lower_char c = (case map_of (zip upper_chars lower_chars) c of Some d \<Rightarrow> d | None \<Rightarrow> c)"

definition upper_char :: "char \<Rightarrow> char" where
  "upper_char c = (case map_of (zip lower_chars upper_chars) c of Some d \<Rightarrow> d | None \<Rightarrow> c)"

text \<open>\<open>s.lower()\<close> and \<open>s.upper()\<close>\<close>

definition lower :: "string \<Rightarrow> string" where
  "lower s = map lower_char s"

definition upper :: "string \<Rightarrow> string" where
  "upper s = map upper_char s"

text \<open>\<open>s.startswith(p)\<close>\<close>

fun startswith :: "string \<Rightarrow> string \<Rightarrow> bool" where
  "startswith s [] = True"
| "startswith [] (p # ps) = False"
| "startswith (c # cs) (p # ps) = (c = p \<and> startswith cs ps)"

text \<open>\<open>s.find(p)\<close>: the index of the first occurrence, \<open>None\<close> for Python's \<open>-1\<close>.\<close>

fun find_str :: "string \<Rightarrow> string \<Rightarrow> nat option" where
  "find_str [] p = (if p = [] then Some 0 else None)"
| "find_str (c # cs) p =
     (if startswith (c # cs) p then Some 0 else map_option Suc (find_str cs p))"

text \<open>\<open>p in s\<close>\<close>

definition contains :: "string \<Rightarrow> string \<Rightarrow> bool" where
  "contains s p = (find_str s p \<noteq> None)"

text \<open>\<open>s.strip()\<close>\<close>

definition strip :: "string \<Rightarrow> string" where
  "strip s = rev (dropWhile is_space (rev (dropWhile is_space s)))"

text \<open>\<open>s.replace(" ", "")\<close>\<close>

definition remove_spaces :: "string \<Rightarrow> string" where
  "remove_spaces s = filter (\<lambda>c. c \<noteq> CHR '' '') s"

text \<open>\<open>s.isdigit()\<close>: false on the empty string.\<close>

definition isdigit :: "string \<Rightarrow> bool" where
  "isdigit s = (s \<noteq> [] \<and> list_all is_digit s)"

text \<open>
  \<open>s.split(sep, 1)[1]\<close>: the text after the first occurrence of \<open>sep\<close>; when \<open>sep\<close>
  does not occur the list has one element and the index raises, here \<open>None\<close>.
\<close>

definition after_first :: "string \<Rightarrow> string \<Rightarrow> string option" where
  "after_first s sep = map_option (\<lambda>i. drop (i + length sep) s) (find_str s sep)"

text \<open>Python truthiness of an optional string, an optional number and a list.\<close>

definition truthy_str :: "string option \<Rightarrow> bool" where
  "truthy_str v = (case v of None \<Rightarrow> False | Some s \<Rightarrow> s \<noteq> [])"

definition truthy_num :: "'a::zero option \<Rightarrow> bool" where
  "truthy_num v = (case v of None \<Rightarrow> False | Some x \<Rightarrow> x \<noteq> 0)"

text \<open>Decimal numerals: \<open>int(s)\<close> on a digit string and \<open>str(n)\<close> on an integer.\<close>

definition digit_val :: "char \<Rightarrow> int" where
  "digit_val c = (case map_of (zip digit_chars [0, 1, 2, 3, 4, 5, 6, 7, 8, 9]) c of
                    Some d \<Rightarrow> d | None \<Rightarrow> 0)"

definition int_of_digits :: "string \<Rightarrow> int" where
  "int_of_digits s = foldl (\<lambda>acc c. 10 * acc + digit_val c) 0 s"

subsection \<open>Python floats\<close>

text \<open>
  A Python float is an IEEE 754 double: a rational number that the format has, or
  infinity. The numbers parsed here carry no sign, so negative values and the negative
  infinity are not needed.
\<close>

datatype pyfloat = Finite rat | Infinity

text \<open>Rounding to the nearest integer, ties to the even one.\<close>

definition round_half_even :: "rat \<Rightarrow> int" where
  "round_half_even x =
     (let f = \<lfloor>x\<rfloor>; d = x - of_int f in
      if d < 1 / 2 then f else if 1 / 2 < d then f + 1 else if even f then f else f + 1)"

text \<open>The number of binary digits of a positive integer.\<close>

function bit_length :: "int \<Rightarrow> int" where
  "bit_length n = (if n \<le> 0 then 0 else 1 + bit_length (n div 2))"
  by pat_completeness auto
termination
  by (relation "measure nat") auto

text \<open>\<open>floor_log2 x\<close> for positive \<open>x\<close>: the \<open>e\<close> with \<open>2 ^ e \<le> x < 2 ^ (e + 1)\<close>.\<close>

definition floor_log2 :: "rat \<Rightarrow> int" where
  "floor_log2 x =
     (if 1 \<le> x then bit_length \<lfloor>x\<rfloor> - 1 else - bit_length (\<lceil>1 / x\<rceil> - 1))"

definition pow2 :: "int \<Rightarrow> rat" where
  "pow2 k = (if 0 \<le> k then 2 ^ nat k else 1 / 2 ^ nat (- k))"

text \<open>
  The double nearest to a non-negative number, ties to the even mantissa: 53 binary
  digits in the normal range, multiples of \<open>2 ^ -1074\<close> below it (with zero for what
  rounds to no multiple), infinity when the rounded number \<open>r\<close> reaches \<open>2 ^ 1024\<close>,
  that is, when \<open>floor_log2 r\<close> is at least 1024.
\<close>

definition round_double :: "rat \<Rightarrow> pyfloat" where
  "round_double x =
     (if x \<le> 0 then Finite 0
      else
        (let q = max (floor_log2 x - 52) (- 1074);
             r = of_int (round_half_even (x / pow2 q)) * pow2 q
         in if r \<noteq> 0 \<and> 1024 \<le> floor_log2 r then Infinity else Finite r))"

text \<open>
  \<open>float(s)\<close> on a string of the form digits, optional point, digits (the only form
  the amount patterns capture): the double nearest to the decimal number.
\<close>

definition float_of_str :: "string \<Rightarrow> pyfloat" where
  "float_of_str s =
     (let ip = takeWhile is_digit s; fp = drop 1 (dropWhile is_digit s)
      in round_double (of_int (int_of_digits ip) + of_int (int_of_digits fp) / 10 ^ length fp))"

text \<open>\<open>x * m\<close> for a float \<open>x\<close> and a positive integer \<open>m\<close> that a double holds exactly.\<close>

definition fmul :: "pyfloat \<Rightarrow> rat \<Rightarrow> pyfloat" where
  "fmul x m = (case x of Finite v \<Rightarrow> round_double (v * m) | Infinity \<Rightarrow> Infinity)"

text \<open>Truthiness of an optional float: neither \<open>None\<close> nor zero.\<close>

definition truthy_float :: "pyfloat option \<Rightarrow> bool" where
  "truthy_float v = (case v of None \<Rightarrow> False | Some (Finite x) \<Rightarrow> x \<noteq> 0 | Some Infinity \<Rightarrow> True)"

section \<open>Regular expressions\<close>

text \<open>
  The source searches text with Python's \<open>re.search\<close>. The patterns it uses are
  written below as terms of \<open>regex\<close>, and \<open>re_search\<close> is a backtracking matcher
  with Python's priorities: alternatives left to right, greedy repetition longest first,
  lazy repetition shortest first, the leftmost start position wins.
\<close>

datatype regex =
    Lit char
  | Cls "char list"
  | AnyChar
  | Bnd
  | Eps
  | Seq regex regex
  | Alt regex regex
  | Star regex
  | LazyStar regex
  | Grp nat regex

text \<open>
  A matcher state: the character before the cursor, the text from the cursor on, and the
  groups captured so far (most recent first).
\<close>

type_synonym mstate = "char option \<times> string \<times> (nat \<times> string) list"

definition rest :: "mstate \<Rightarrow> string" where
  "rest st = fst (snd st)"

definition word_opt :: "char option \<Rightarrow> bool" where
  "word_opt p = (case p of None \<Rightarrow> False | Some c \<Rightarrow> is_word c)"

definition step_char :: "(char \<Rightarrow> bool) \<Rightarrow> mstate \<Rightarrow> mstate list" where
  "step_char P st =
     (case rest st of [] \<Rightarrow> []
      | c # cs \<Rightarrow> if P c then [(Some c, cs, snd (snd st))] else [])"

definition capture :: "nat \<Rightarrow> mstate \<Rightarrow> mstate \<Rightarrow> mstate" where
  "capture k st st' =
     (fst st', rest st',
      (k, take (length (rest st) - length (rest st')) (rest st)) # snd (snd st'))"

text \<open>All ways to match at the cursor, in the order the backtracking engine tries them.\<close>

function matches :: "regex \<Rightarrow> mstate \<Rightarrow> mstate list" where
  "matches (Lit c) st = step_char (\<lambda>x. x = c) st"
| "matches (Cls cs) st = step_char (\<lambda>x. x \<in> set cs) st"
| "matches AnyChar st = step_char (\<lambda>x. x \<noteq> CHR 0x0A) st"
| "matches Bnd st =
     (if word_opt (fst st) \<noteq> word_opt (case rest st of [] \<Rightarrow> None | c # _ \<Rightarrow> Some c)
      then [st] else [])"
| "matches Eps st = [st]"
| "matches (Seq a b) st = concat (map (matches b) (matches a st))"
| "matches (Alt a b) st = matches a st @ matches b st"
| "matches (Star r) st =
     concat (map (\<lambda>st'. if length (rest st') < length (rest st)
                         then matches (Star r) st' else [])
                 (matches r st)) @ [st]"
| "matches (LazyStar r) st =
     st # concat (map (\<lambda>st'. if length (rest st') < length (rest st)
                              then matches (LazyStar r) st' else [])
                      (matches r st))"
| "matches (Grp k r) st = map (capture k st) (matches r st)"
  by pat_completeness auto
termination
  by (relation "measures [\<lambda>(r, st). size r, \<lambda>(r, st). length (rest st)]") auto

text \<open>\<open>re.search\<close>: the first way to match at the leftmost position that has one.\<close>

fun scan :: "regex \<Rightarrow> char option \<Rightarrow> string \<Rightarrow> (nat \<times> string) list option" where
  "scan r p [] = (case matches r (p, [], []) of [] \<Rightarrow> None | m # _ \<Rightarrow> Some (snd (snd m)))"
| "scan r p (c # cs) =
     (case matches r (p, c # cs, []) of
        [] \<Rightarrow> scan r (Some c) cs
      | m # _ \<Rightarrow> Some (snd (snd m)))"

definition re_search :: "regex \<Rightarrow> string \<Rightarrow> (nat \<times> string) list option" where
  "re_search r s = scan r None s"

text \<open>\<open>m.group(k)\<close>; \<open>None\<close> when the group took no part in the match.\<close>

definition group :: "(nat \<times> string) list \<Rightarrow> nat \<Rightarrow> string option" where
  "group m k = map_of m k"

text \<open>Pattern syntax built from the constructors.\<close>

definition str :: "string \<Rightarrow> regex" where
  "str s = foldr (\<lambda>c r. Seq (Lit c) r) s Eps"

definition opt :: "regex \<Rightarrow> regex" where
  "opt r = Alt r Eps"

definition plus :: "regex \<Rightarrow> regex" where
  "plus r = Seq r (Star r)"

fun rep :: "nat \<Rightarrow> regex \<Rightarrow> regex" where
  "rep 0 r = Eps"
| "rep (Suc n) r = Seq r (rep n r)"

text \<open>\<open>r{n,m}\<close> is \<open>n\<close> copies followed by up to \<open>m - n\<close> more, longest first.\<close>

fun upto :: "nat \<Rightarrow> regex \<Rightarrow> regex" where
  "upto 0 r = Eps"
| "upto (Suc n) r = opt (Seq r (upto n r))"

definition rep_range :: "nat \<Rightarrow> nat \<Rightarrow> regex \<Rightarrow> regex" where
  "rep_range n m r = Seq (rep n r) (upto (m - n) r)"

definition rep_min :: "nat \<Rightarrow> regex \<Rightarrow> regex" where
  "rep_min n r = Seq (rep n r) (Star r)"

fun alts :: "regex list \<Rightarrow> regex" where
  "alts [] = Eps"
| "alts [r] = r"
| "alts (r # rs) = Alt r (alts rs)"

fun seqs :: "regex list \<Rightarrow> regex" where
  "seqs [] = Eps"
| "seqs [r] = r"
| "seqs (r # rs) = Seq r (seqs rs)"

definition digit :: regex where
  "digit = Cls digit_chars"

definition spaces :: regex where
  "spaces = Star (Cls space_chars)"

text \<open>\<open>re.IGNORECASE\<close>: every literal and class also matches the other case.\<close>

fun icase :: "regex \<Rightarrow> regex" where
  "icase (Lit c) = Cls [lower_char c, upper_char c]"
| "icase (Cls cs) = Cls (map lower_char cs @ map upper_char cs)"
| "icase (Seq a b) = Seq (icase a) (icase b)"
| "icase (Alt a b) = Alt (icase a) (icase b)"
| "icase (Star r) = Star (icase r)"
| "icase (LazyStar r) = LazyStar (icase r)"
| "icase (Grp k r) = Grp k (icase r)"
| "icase r = r"


fun digits_of :: "nat \<Rightarrow> string" where
  "digits_of n =
     (if n < 10 then [digit_chars ! n] else digits_of (n div 10) @ [digit_chars ! (n mod 10)])"

text \<open>\<open>str(i)\<close> on an integer.\<close>

definition str_of_int :: "int \<Rightarrow> string" where
  "str_of_int i = (if i < 0 then CHR ''-'' # digits_of (nat (- i)) else digits_of (nat i))"

section \<open>The application record (workflow/state.py)\<close>

datatype msg_role = User | Assistant | System

datatype agent_name =
  Master_agent | Sales_agent | Verification_agent | Underwriting_agent | Sanction_agent

datatype stage =
    Greeting
  | Needs_assessment
  | Sales_negotiation
  | Verification
  | Underwriting
  | Document_upload
  | Sanction_generation
  | Closure

text \<open>The values \<open>next_action\<close> takes: \<open>"delegate_to_sales"\<close> and so on.\<close>

datatype action =
  Delegate_to_sales | Delegate_to_verification | Delegate_to_underwriting | Delegate_to_sanction

datatype decision = Approved | Rejected | Needs_documents | Pending

datatype app_status = In_progress | Status_approved | Status_rejected | Abandoned

text \<open>The values \<open>otp_provider\<close> takes: \<open>"twilio"\<close> and \<open>"demo"\<close>.\<close>

datatype provider = Twilio | Demo

text \<open>\<open>ConversationMessage\<close>; the wall-clock \<open>timestamp\<close> is not modelled.\<close>

record message =
  role :: msg_role
  content :: string
  agent :: "agent_name option"

text \<open>\<open>LoanOffer\<close>, the fields the workflow reads.\<close>

record offer =
  offer_amount :: rat
  offer_tenure_months :: int
  offer_interest_rate :: rat
  offer_monthly_emi :: rat

text \<open>
  \<open>LoanApplicationState\<close>, with the fields the workflow and the orchestrator read or
  write. The amount \<open>requested_amount\<close> is a float; the other float fields are only
  copied from collaborators, never computed with, and are kept as rationals. The wall-clock fields \<open>created_at\<close> and
  \<open>updated_at\<close> (which \<open>update_state\<close> refreshes on every call) and the random
  \<open>session_id\<close> are not modelled.
\<close>

record loan_state =
  customer_id :: "string option"
  customer_name :: "string option"
  customer_phone :: "string option"
  conversation_history :: "message list"
  current_stage :: stage
  active_agent :: agent_name
  next_action :: "action option"
  requested_amount :: "pyfloat option"
  approved_amount :: "rat option"
  tenure_months :: "int option"
  interest_rate :: "rat option"
  monthly_emi :: "rat option"
  customer_needs :: "string option"
  recommended_offers :: "offer list"
  selected_offer :: "offer option"
  kyc_verified :: bool
  kyc_pan :: "string option"
  kyc_aadhaar_last4 :: "string option"
  kyc_dob :: "string option"
  kyc_email :: "string option"
  alt_phone :: "string option"
  phone_verified :: bool
  address_verified :: bool
  otp_sent :: bool
  otp_attempts :: int
  otp_provider :: "provider option"
  otp_code :: "string option"
  otp_phone :: "string option"
  otp_resend_count :: int
  credit_score :: "int option"
  salary_slip_uploaded :: bool
  total_monthly_obligation :: "rat option"
  emi_to_income_ratio :: "rat option"
  risk_score :: "rat option"
  underwriting_decision :: "decision option"
  rejection_reason :: "string option"
  conditional_requirements :: "string list"
  underwriting_recommendations :: "string list"
  sanction_letter_url :: "string option"
  sanction_letter_ref_no :: "string option"
  application_status :: app_status
  total_interactions :: int
  last_error :: "string option"

definition create_initial_state :: "string option \<Rightarrow> loan_state" where
  "create_initial_state cid =
     \<lparr> customer_id = cid, customer_name = None, customer_phone = None,
       conversation_history = [],
       current_stage = Greeting, active_agent = Master_agent, next_action = None,
       requested_amount = None, approved_amount = None, tenure_months = None,
       interest_rate = None, monthly_emi = None,
       customer_needs = None, recommended_offers = [], selected_offer = None,
       kyc_verified = False, kyc_pan = None, kyc_aadhaar_last4 = None, kyc_dob = None,
       kyc_email = None, alt_phone = None, phone_verified = False, address_verified = False,
       otp_sent = False, otp_attempts = 0, otp_provider = None, otp_code = None,
       otp_phone = None, otp_resend_count = 0,
       credit_score = None, salary_slip_uploaded = False,
       total_monthly_obligation = None, emi_to_income_ratio = None, risk_score = None,
       underwriting_decision = Some Pending, rejection_reason = None,
       conditional_requirements = [], underwriting_recommendations = [],
       sanction_letter_url = None, sanction_letter_ref_no = None,
       application_status = In_progress,
       total_interactions = 0, last_error = None \<rparr>"

text \<open>
  \<open>add_message\<close>: append one message and count it. (\<open>update_state\<close> is a record
  update here, since the timestamp it refreshes is not modelled.)
\<close>

definition add_message :: "loan_state \<Rightarrow> msg_role \<Rightarrow> string \<Rightarrow> agent_name option \<Rightarrow> loan_state" where
  "add_message s r c a =
     s\<lparr> conversation_history := conversation_history s @ [\<lparr> role = r, content = c, agent = a \<rparr>],
        total_interactions := total_interactions s + 1 \<rparr>"

text \<open>The last entry of a list, \<open>xs[-1]\<close> guarded by \<open>if xs\<close>.\<close>

definition last_opt :: "'a list \<Rightarrow> 'a option" where
  "last_opt xs = (case rev xs of [] \<Rightarrow> None | x # _ \<Rightarrow> Some x)"

section \<open>External collaborators\<close>

text \<open>
  What the workflow obtains from outside the repository's own code: the language model,
  the customer database, the Twilio client, the environment variables, and the sales,
  underwriting and sanction agents. Each is a parameter; a call that the source makes is
  an application of the corresponding field, assumed to return.
\<close>

record customer =
  cust_name :: string
  cust_phone :: string
  cust_city :: string
  cust_kyc_status :: string

record details_result =
  details_verified :: bool
  details_mismatches :: "(string \<times> string) list"

datatype sales_result =
    Sales_ok "offer list" offer string
  | Sales_failed "string option"

record neg_result =
  neg_response :: string
  negotiation_approved :: bool
  new_rate :: "rat option"
  new_emi :: "rat option"

record uw_data =
  uw_message :: string
  uw_credit_score :: "int option"
  uw_risk_score :: "rat option"
  uw_decision :: decision
  uw_approved_amount :: "rat option"
  uw_conditions :: "string list"
  uw_reason :: "string option"
  uw_monthly_emi :: "rat option"
  uw_total_monthly_obligation :: "rat option"
  uw_emi_to_income_ratio :: "rat option"
  uw_recommendations :: "string list"

datatype uw_result = Uw_ok uw_data | Uw_failed "string option"

datatype sanction_result = Sanction_ok string string string | Sanction_failed "string option"

record env =
  llm_reply :: "loan_state \<Rightarrow> string \<Rightarrow> string"
  get_customer_by_id :: "string \<Rightarrow> customer option"
  getenv :: "string \<Rightarrow> string option"
  twilio_create_verification :: "string option \<Rightarrow> string + string"
  twilio_create_check :: "string option \<Rightarrow> string \<Rightarrow> string + string"
  simulate_otp_generation :: "string option \<Rightarrow> string"
  verify_customer_details :: "string \<Rightarrow> string \<Rightarrow> details_result"
  process_sales :: "loan_state \<Rightarrow> pyfloat \<Rightarrow> string option \<Rightarrow> sales_result"
  handle_negotiation :: "loan_state \<Rightarrow> string \<Rightarrow> offer \<Rightarrow> neg_result"
  selection_text :: "offer \<Rightarrow> loan_state \<Rightarrow> string"
  process_underwriting :: "loan_state \<Rightarrow> uw_result"
  generate_sanction :: "loan_state \<Rightarrow> sanction_result"

section \<open>The orchestrator (agents/master\_agent.py)\<close>

text \<open>The number part of the first three amount patterns: \<open>(\d+\.?\d*)\<close>.\<close>

definition number_grp :: regex where
  "number_grp = Grp 1 (seqs [plus digit, opt (Lit CHR ''.''), Star digit])"

text \<open>
  The pattern table of the \<open>greeting\<close> branch, in the order of the source:
  \<open>(\d+\.?\d*)\s*(?:lakh|lakhs|lac|lacs)\<close>, \<open>(\d+\.?\d*)\s*(?:l|L)\<close>,
  \<open>(\d+\.?\d*)\s*(?:thousand|k|K)\<close>, \<open>(\d{4,})\<close>.
\<close>

definition lakh_pattern :: regex where
  "lakh_pattern = seqs [number_grp, spaces, alts [str ''lakh'', str ''lakhs'', str ''lac'', str ''lacs'']]"

definition l_pattern :: regex where
  "l_pattern = seqs [number_grp, spaces, alts [Lit CHR ''l'', Lit CHR ''L'']]"

definition thousand_pattern :: regex where
  "thousand_pattern = seqs [number_grp, spaces, alts [str ''thousand'', Lit CHR ''k'', Lit CHR ''K'']]"

definition digits4_pattern :: regex where
  "digits4_pattern = Grp 1 (rep_min 4 digit)"

definition patterns :: "(regex \<times> rat) list" where
  "patterns = [(lakh_pattern, 100000), (l_pattern, 100000), (thousand_pattern, 1000), (digits4_pattern, 1)]"

text \<open>
  The loop over the table: the first pattern that matches anywhere in the text decides,
  and the loop breaks there. \<open>float\<close> of a missing group raises and leaves \<open>amt\<close>
  at \<open>None\<close>.
\<close>

fun first_amount :: "(regex \<times> rat) list \<Rightarrow> string \<Rightarrow> pyfloat option" where
  "first_amount [] s = None"
| "first_amount ((pattern, mult) # ps) s =
     (case re_search pattern s of
        None \<Rightarrow> first_amount ps s
      | Some m \<Rightarrow> (case group m 1 of None \<Rightarrow> None | Some g \<Rightarrow> Some (fmul (float_of_str g) mult)))"

text \<open>\<open>(\d+)\s*(lakh|lakhs|thousand|k|lac)\<close> of the \<open>needs_assessment\<close> branch.\<close>

definition amount_match_pattern :: regex where
  "amount_match_pattern =
     seqs [Grp 1 (plus digit), spaces,
           Grp 2 (alts [str ''lakh'', str ''lakhs'', str ''thousand'', Lit CHR ''k'', str ''lac''])]"

text \<open>\<open>option\s*[1-9]\<close>, \<open>\b(\d+)\s*(year|years|yr|yrs|month|months)\b\<close> and \<open>\d+\s*%\<close>.\<close>

definition option_digit_pattern :: regex where
  "option_digit_pattern = seqs [str ''option'', spaces, Cls ''123456789'']"

definition tenure_pattern :: regex where
  "tenure_pattern =
     seqs [Bnd, Grp 1 (plus digit), spaces,
           Grp 2 (alts [str ''year'', str ''years'', str ''yr'', str ''yrs'', str ''month'', str ''months'']),
           Bnd]"

definition percent_pattern :: regex where
  "percent_pattern = seqs [plus digit, spaces, Lit CHR ''%'']"

text \<open>\<open>\b\d{4,6}\b\<close>, with the digits as group 1 where the source captures them.\<close>

definition otp_token_pattern :: regex where
  "otp_token_pattern = seqs [Bnd, Grp 1 (rep_range 4 6 digit), Bnd]"

definition found :: "regex \<Rightarrow> string \<Rightarrow> bool" where
  "found r s = (re_search r s \<noteq> None)"

text \<open>\<open>any(k in text for k in keywords)\<close>\<close>

definition any_in :: "string list \<Rightarrow> string \<Rightarrow> bool" where
  "any_in keywords text = list_ex (contains text) keywords"

definition accept_terms :: "string list" where
  "accept_terms = [''proceed'', ''go ahead'', ''accept'', ''let'' @ [CHR 0x27] @ ''s go'', ''lets go'',
                   ''confirm'', ''finalize'', ''book'', ''i agree'', ''looks good'']"

definition negotiation_cues :: "string list" where
  "negotiation_cues = [''rate'', ''reduce'', ''discount'', ''lower'', ''cheaper'', ''negotiate'',
                       ''negotiation'', ''emi'']"

text \<open>
  \<open>MasterAgent._determine_next_action\<close>. The source returns the pair
  \<open>(next_action, new_stage)\<close> and, in the \<open>greeting\<close> branch, writes the parsed
  amount into the state it was given; the model returns that state as third component.
\<close>

definition determine_next_action ::
  "stage \<Rightarrow> string \<Rightarrow> loan_state \<Rightarrow> action option \<times> stage \<times> loan_state" where
  "determine_next_action cur user_message s =
     (let user_message_lower = lower user_message in
      case cur of
        Greeting \<Rightarrow>
          if truthy_float (requested_amount s) then (Some Delegate_to_sales, Sales_negotiation, s)
          else
            (let amt = first_amount patterns user_message_lower in
             if truthy_float amt
             then (Some Delegate_to_sales, Sales_negotiation, s\<lparr> requested_amount := amt \<rparr>)
             else if any_in [''loan'', ''money'', ''borrow'', ''need'', ''want''] user_message_lower
             then (None, Needs_assessment, s)
             else (None, Greeting, s))
      | Needs_assessment \<Rightarrow>
          if truthy_float (requested_amount s) then (Some Delegate_to_sales, Sales_negotiation, s)
          else if found amount_match_pattern user_message_lower
          then (Some Delegate_to_sales, Sales_negotiation, s)
          else (None, Needs_assessment, s)
      | Sales_negotiation \<Rightarrow>
          if any_in accept_terms user_message_lower
          then (Some Delegate_to_verification, Verification, s)
          else if found option_digit_pattern user_message_lower
                  \<or> found tenure_pattern user_message_lower
          then (Some Delegate_to_sales, Sales_negotiation, s)
          else if any_in negotiation_cues user_message_lower
                  \<or> found percent_pattern user_message_lower
          then (Some Delegate_to_sales, Sales_negotiation, s)
          else (None, Sales_negotiation, s)
      | Verification \<Rightarrow>
          if any_in [''send otp'', ''otp'', ''resend otp'', ''send the otp''] user_message_lower
          then (Some Delegate_to_verification, Verification, s)
          else if otp_sent s \<and> found otp_token_pattern user_message_lower
          then (Some Delegate_to_verification, Verification, s)
          else if kyc_verified s \<and> phone_verified s
          then (Some Delegate_to_underwriting, Underwriting, s)
          else (None, Verification, s)
      | Underwriting \<Rightarrow>
          (case underwriting_decision s of
             Some Needs_documents \<Rightarrow> (None, Document_upload, s)
           | Some Approved \<Rightarrow> (Some Delegate_to_sanction, Sanction_generation, s)
           | Some Rejected \<Rightarrow> (None, Closure, s)
           | _ \<Rightarrow> (None, Underwriting, s))
      | Document_upload \<Rightarrow>
          if salary_slip_uploaded s then (Some Delegate_to_underwriting, Underwriting, s)
          else (None, Document_upload, s)
      | Sanction_generation \<Rightarrow>
          if truthy_str (sanction_letter_url s) then (None, Closure, s)
          else (None, Sanction_generation, s)
      | Closure \<Rightarrow> (None, Closure, s))"

definition greeting_named_tail :: string where
  "greeting_named_tail = ''! \<newline>\<newline>Welcome to FinTech NBFC - your trusted partner for personal loans.\<newline>\<newline>I'' @ [CHR 0x27] @ ''m here to help you with quick and easy loan approval. Whether you need funds for a wedding, education, medical emergency, or any personal need, I can assist you.\<newline>\<newline>How can I help you today?''"

definition greeting_anonymous :: string where
  "greeting_anonymous = ''Hello!  Welcome to FinTech NBFC!\<newline>\<newline>I'' @ [CHR 0x27] @ ''m your personal loan assistant. I'' @ [CHR 0x27] @ ''m here to help you get the funds you need with:\<newline> Quick approval process\<newline> Competitive interest rates  \<newline> Flexible repayment options\<newline> Minimal documentation\<newline>\<newline>May I know your name to get started?''"

text \<open>\<open>MasterAgent.generate_greeting\<close>\<close>

definition generate_greeting :: "string option \<Rightarrow> string" where
  "generate_greeting name =
     (if truthy_str name then ''Hello '' @ the name @ greeting_named_tail else greeting_anonymous)"

text \<open>
  \<open>MasterAgent.process_message\<close>: the reply of the language model, then the decision.
  The prompt is a function of the state, the message and the customer database, so the
  reply is \<open>llm_reply e s user_message\<close>.
\<close>

definition master_process_message ::
  "env \<Rightarrow> loan_state \<Rightarrow> string \<Rightarrow> string \<times> action option \<times> stage \<times> loan_state" where
  "master_process_message e s user_message =
     (let response_text = llm_reply e s user_message;
          (act, new_stage, s') = determine_next_action (current_stage s) user_message s
      in (response_text, act, new_stage, s'))"

section \<open>The stage nodes and the router (workflow/graph.py)\<close>

definition master_agent_node :: "env \<Rightarrow> loan_state \<Rightarrow> loan_state" where
  "master_agent_node e s =
     (case last_opt (conversation_history s) of
        None \<Rightarrow> add_message s Assistant (generate_greeting (customer_name s)) (Some Master_agent)
      | Some last_message \<Rightarrow>
          if role last_message = User then
            (let (response, act, new_stage, s') = master_process_message e s (content last_message);
                 new_state = add_message s' Assistant response (Some Master_agent)
             in new_state\<lparr> current_stage := new_stage, next_action := act,
                            active_agent := Master_agent \<rparr>)
          else s)"

datatype route = To_sales | To_verification | To_underwriting | To_sanction | To_master | To_end

definition otp_keywords :: "string list" where
  "otp_keywords = [''send otp'', ''resend otp'', ''send the otp'', ''otp please'', ''otp'']"

definition route_master_agent :: "loan_state \<Rightarrow> route" where
  "route_master_agent s =
     (case next_action s of
        Some Delegate_to_sales \<Rightarrow> To_sales
      | Some Delegate_to_verification \<Rightarrow> To_verification
      | Some Delegate_to_underwriting \<Rightarrow> To_underwriting
      | Some Delegate_to_sanction \<Rightarrow> To_sanction
      | None \<Rightarrow>
          if current_stage s = Verification
             \<and> (case last_opt (conversation_history s) of
                  None \<Rightarrow> False
                | Some m \<Rightarrow> role m = User
                    \<and> (any_in otp_keywords (lower (content m))
                        \<or> (otp_sent s \<and> found otp_token_pattern (lower (content m)))))
          then To_verification
          else if current_stage s = Closure
                  \<and> application_status s \<in> {Status_approved, Status_rejected, Abandoned}
          then To_end
          else if (case last_opt (conversation_history s) of
                     None \<Rightarrow> False | Some m \<Rightarrow> role m = Assistant)
          then To_end
          else To_master)"

datatype error = IndexError | GraphRecursionError

text \<open>\<open>f"{x}"\<close> on an optional string: \<open>None\<close> prints as \<open>None\<close>.\<close>

definition py_str :: "string option \<Rightarrow> string" where
  "py_str v = (case v of None \<Rightarrow> ''None'' | Some s \<Rightarrow> s)"

text \<open>\<open>x or ""\<close>\<close>

definition or_empty :: "string option \<Rightarrow> string" where
  "or_empty v = (case v of None \<Rightarrow> [] | Some s \<Rightarrow> s)"

subsection \<open>One-time codes through Twilio (tools/otp\_tools.py)\<close>

definition is_twilio_configured :: "env \<Rightarrow> bool" where
  "is_twilio_configured e =
     (truthy_str (getenv e ''TWILIO_ACCOUNT_SID'') \<and> truthy_str (getenv e ''TWILIO_AUTH_TOKEN'')
      \<and> truthy_str (getenv e ''TWILIO_VERIFY_SERVICE_SID''))"

record send_result =
  send_success :: bool
  send_message :: "string option"
  send_error :: "string option"

record check_result =
  check_success :: bool
  check_verified :: bool
  check_message :: "string option"

text \<open>
  \<open>send_otp_via_twilio\<close>: the client call either returns a status or raises; \<open>Inl\<close>
  carries the error text the \<open>except\<close> clause builds.
\<close>

definition send_otp_via_twilio :: "env \<Rightarrow> string option \<Rightarrow> send_result" where
  "send_otp_via_twilio e phone =
     (case twilio_create_verification e phone of
        Inr status \<Rightarrow>
          \<lparr> send_success = True,
            send_message = Some ('' OTP sent to '' @ py_str phone @ ''. Please enter the 6-digit code.''),
            send_error = None \<rparr>
      | Inl err \<Rightarrow> \<lparr> send_success = False, send_message = None, send_error = Some err \<rparr>)"

definition verify_otp_via_twilio :: "env \<Rightarrow> string option \<Rightarrow> string \<Rightarrow> check_result" where
  "verify_otp_via_twilio e phone code =
     (case twilio_create_check e phone code of
        Inr status \<Rightarrow>
          (let approved = (status = ''approved'') in
           \<lparr> check_success = True, check_verified = approved,
             check_message = Some (if approved then '' Phone Verification Successful!''
                                   else '' Incorrect OTP. Please try again.'') \<rparr>)
      | Inl err \<Rightarrow> \<lparr> check_success = False, check_verified = False, check_message = None \<rparr>)"

definition send_otp :: "env \<Rightarrow> string option \<Rightarrow> send_result" where
  "send_otp e phone =
     (if is_twilio_configured e then send_otp_via_twilio e phone
      else \<lparr> send_success = False, send_message = None, send_error = Some ''Twilio not configured'' \<rparr>)"

definition verify_otp :: "env \<Rightarrow> string option \<Rightarrow> string \<Rightarrow> check_result" where
  "verify_otp e phone code =
     (if is_twilio_configured e then verify_otp_via_twilio e phone code
      else \<lparr> check_success = False, check_verified = False, check_message = None \<rparr>)"

subsection \<open>The verification agent (agents/verification\_agent.py)\<close>

definition verification_steps_text :: "customer \<Rightarrow> string" where
  "verification_steps_text c =
     ''Thank you! Let'' @ [CHR 0x27] @ ''s quickly verify your details for security. This will only take a minute.\<newline>\<newline> **Verification Steps**\<newline>1) Identity: Share PAN, DOB, and Email\<newline>2) Phone: We'' @ [CHR 0x27] @ ''ll send an OTP to ''
     @ cust_phone c
     @ ''\<newline>3) Address: Confirm your current address\<newline>\<newline>I have your records on file:\<newline>- Name: ''
     @ cust_name c @ ''\<newline>- Phone: '' @ cust_phone c @ ''\<newline>- City: '' @ cust_city c
     @ ''\<newline>\<newline>**KYC Status**: '' @ upper (cust_kyc_status c)
     @ ''\<newline>\<newline>You can reply here (e.g., \"PAN: ABCDE1234F | DOB: 1990-05-10 | Email: name@example.com\")\<newline>and type \"SEND OTP\" to receive the code.\<newline>\<newline>Alternatively, use the verification panel below to submit details.\<newline>''"

datatype start_result = Start_ok string customer | Start_failed string

definition start_verification :: "env \<Rightarrow> loan_state \<Rightarrow> start_result" where
  "start_verification e s =
     (if \<not> truthy_str (customer_id s) then Start_failed ''Customer ID not available''
      else case get_customer_by_id e (the (customer_id s)) of
             None \<Rightarrow> Start_failed ''Customer not found''
           | Some c \<Rightarrow> Start_ok (verification_steps_text c) c)"

definition otp_sent_text :: "string option \<Rightarrow> string \<Rightarrow> string" where
  "otp_sent_text phone otp =
     '' **OTP Sent Successfully!**\<newline>\<newline>A 6-digit OTP has been sent to '' @ py_str phone
     @ ''.\<newline>\<newline> Please check your messages and enter the OTP here to verify your phone number.\<newline>\<newline> OTP is valid for 10 minutes.\<newline> Didn'' @ [CHR 0x27] @ ''t receive it? You can request a new OTP in 60 seconds.\<newline>\<newline>**For Demo**: Your OTP is **''
     @ otp @ ''**\<newline>''"

text \<open>\<open>VerificationAgent.send_otp\<close>: the message and the generated code.\<close>

definition agent_send_otp :: "env \<Rightarrow> string \<Rightarrow> string option \<Rightarrow> string \<times> string" where
  "agent_send_otp e cust_id phone =
     (let otp = simulate_otp_generation e phone in (otp_sent_text phone otp, otp))"

definition address_ok_text :: string where
  "address_ok_text = '' **Address Verified Successfully!**\<newline>\<newline>Your address matches our records. All verification steps are complete!\<newline>\<newline> **Verification Summary**:\<newline> Identity:  Verified\<newline> Phone:  Verified  \<newline> Address:  Verified\<newline>\<newline>Great! Now let'' @ [CHR 0x27] @ ''s proceed with your loan application review. This will just take a moment...''"

definition address_mismatch_text :: "string \<times> string \<Rightarrow> string" where
  "address_mismatch_text mismatch =
     '' **Address Mismatch Detected**\<newline>\<newline>The address you provided doesn'' @ [CHR 0x27] @ ''t match our records:\<newline>\<newline>**Your Input**: ''
     @ fst mismatch @ ''\<newline>**Our Records**: '' @ snd mismatch
     @ ''\<newline>\<newline>This might be due to:\<newline>- Recent address change\<newline>- Typing error\<newline>- Different format\<newline>\<newline>Please confirm:\<newline>1. Is this your current address? If yes, we'' @ [CHR 0x27] @ ''ll update our records.\<newline>2. Or would you like to use the address we have on file?\<newline>\<newline>Your security is important, so we need to clarify this.''"

definition address_confirmed_text :: string where
  "address_confirmed_text = '' **Address Verified!**\<newline>\<newline>Thank you for confirming. All verifications are complete!''"

text \<open>
  \<open>VerificationAgent.verify_address\<close>: the message and whether the result carries
  \<open>address_verified\<close>. A mismatch is a pair (provided value, value on file).
\<close>

definition verify_address :: "env \<Rightarrow> string \<Rightarrow> string \<Rightarrow> string \<times> bool" where
  "verify_address e cust_id provided_address =
     (let result = verify_customer_details e cust_id provided_address in
      if details_verified result then (address_ok_text, True)
      else case details_mismatches result of
             mismatch # _ \<Rightarrow> (address_mismatch_text mismatch, False)
           | [] \<Rightarrow> (address_confirmed_text, True))"

subsection \<open>The verification node\<close>

text \<open>
  The content of the last user message of the history, \<open>None\<close> when there is none
  (the loop over \<open>reversed(conversation_history)\<close> that breaks at the first user entry).
\<close>

definition last_user_content :: "message list \<Rightarrow> string option" where
  "last_user_content h =
     (case List.find (\<lambda>m. role m = User) (rev h) of
        None \<Rightarrow> None | Some m \<Rightarrow> Some (content m))"

text \<open>The phone number the code goes to, normalised: ten digits get the prefix +91.\<close>

definition normalize_phone :: "string option \<Rightarrow> string option" where
  "normalize_phone phone =
     (if truthy_str phone then
        (let raw = remove_spaces (strip (the phone)) in
         if isdigit raw \<and> length raw = 10 then Some (''+91'' @ raw) else Some raw)
      else phone)"

definition otp_target_phone :: "env \<Rightarrow> loan_state \<Rightarrow> string option" where
  "otp_target_phone e s =
     normalize_phone
       (if truthy_str (otp_phone s) then otp_phone s
        else case start_verification e s of
               Start_ok _ c \<Rightarrow> Some (cust_phone c)
             | Start_failed _ \<Rightarrow> customer_phone s)"

definition next_resend_count :: "loan_state \<Rightarrow> int" where
  "next_resend_count s = (if otp_sent s then otp_resend_count s + 1 else otp_resend_count s)"

text \<open>The branch that sends or resends a code, for a customer id \<open>cust_id\<close>.\<close>

definition request_otp :: "env \<Rightarrow> loan_state \<Rightarrow> string \<Rightarrow> loan_state" where
  "request_otp e s cust_id =
     (let phone = otp_target_phone e s in
      if is_twilio_configured e then
        (let otp_res = send_otp e phone;
             msg = (if send_success otp_res
                    then (case send_message otp_res of
                            Some m \<Rightarrow> m | None \<Rightarrow> ''OTP sent. Please enter the code.'')
                    else ''  Failed to send OTP: ''
                         @ (case send_error otp_res of Some err \<Rightarrow> err | None \<Rightarrow> ''unknown error''));
             new_state = add_message s Assistant msg (Some Verification_agent)
         in new_state\<lparr> otp_sent := send_success otp_res,
                        otp_provider := (if send_success otp_res then Some Twilio else None),
                        otp_code := None,
                        otp_phone := phone,
                        otp_attempts := 0,
                        otp_resend_count := next_resend_count s,
                        active_agent := Master_agent,
                        next_action := None \<rparr>)
      else
        (let (message, code) = agent_send_otp e cust_id phone;
             new_state = add_message s Assistant message (Some Verification_agent)
         in new_state\<lparr> otp_sent := True,
                        otp_provider := Some Demo,
                        otp_code := Some code,
                        otp_phone := phone,
                        otp_attempts := 0,
                        otp_resend_count := next_resend_count s,
                        active_agent := Master_agent,
                        next_action := None \<rparr>))"

definition phone_verified_text :: string where
  "phone_verified_text = '' **Phone Verification Successful!**\<newline>\<newline>Your mobile number has been verified successfully.\<newline>\<newline>Next, let me confirm your address details for our records.''"

definition max_attempts_text :: string where
  "max_attempts_text = '' **Maximum Attempts Exceeded**\<newline>\<newline>You'' @ [CHR 0x27] @ ''ve entered incorrect OTP 3 times. For security reasons, please request a new OTP.\<newline>\<newline>Type \"SEND OTP\" to get a new code.''"

definition incorrect_otp_text :: "int \<Rightarrow> string" where
  "incorrect_otp_text attempts =
     '' **Incorrect OTP**\<newline>\<newline>The OTP you entered doesn'' @ [CHR 0x27] @ ''t match. Please try again.\<newline>\<newline>Attempts remaining: ''
     @ str_of_int (3 - attempts)
     @ ''\<newline>\<newline> Make sure you'' @ [CHR 0x27] @ ''re entering the latest OTP received.''"

definition twilio_max_attempts_text :: string where
  "twilio_max_attempts_text = '' Maximum attempts exceeded. Type '' @ [CHR 0x27] @ ''SEND OTP'' @ [CHR 0x27] @ '' to request a new code.''"

definition no_otp_text :: string where
  "no_otp_text = ''No OTP found. Please type '' @ [CHR 0x27] @ ''SEND OTP'' @ [CHR 0x27] @ '' to request a new code.''"

text \<open>
  The branch that checks an entered code; \<open>last_user_msg\<close> contains a token of four to
  six digits, and \<open>entered_code\<close> is the first one.
\<close>

definition check_otp :: "env \<Rightarrow> loan_state \<Rightarrow> string \<Rightarrow> loan_state" where
  "check_otp e s last_user_msg =
     (let entered_code = (case re_search otp_token_pattern last_user_msg of
                            None \<Rightarrow> None | Some m \<Rightarrow> group m 1) in
      if otp_sent s \<and> otp_provider s = Some Twilio \<and> truthy_str (otp_phone s)
         \<and> truthy_str entered_code
      then
        (let vres = verify_otp e (otp_phone s) (the entered_code) in
         if check_success vres \<and> check_verified vres then
           (add_message s Assistant '' Phone Verification Successful!'' (Some Verification_agent))
             \<lparr> phone_verified := True, otp_sent := False, otp_code := None, otp_attempts := 0,
               active_agent := Master_agent, next_action := None \<rparr>
         else
           (let attempts = otp_attempts s + 1;
                err_msg = (if truthy_str (check_message vres) then the (check_message vres)
                           else '' Incorrect OTP. Attempts remaining: ''
                                @ str_of_int (max 0 (3 - attempts)))
            in if attempts \<ge> 3 then
                 (add_message s Assistant twilio_max_attempts_text (Some Verification_agent))
                   \<lparr> otp_sent := False, otp_attempts := 0,
                     active_agent := Master_agent, next_action := None \<rparr>
               else
                 (add_message s Assistant err_msg (Some Verification_agent))
                   \<lparr> otp_attempts := attempts,
                     active_agent := Master_agent, next_action := None \<rparr>))
      else if otp_sent s \<and> truthy_str (otp_code s) then
        (if entered_code = otp_code s then
           (add_message s Assistant phone_verified_text (Some Verification_agent))
             \<lparr> phone_verified := True, otp_sent := False, otp_code := None, otp_attempts := 0,
               active_agent := Master_agent, next_action := None \<rparr>
         else
           (let attempts = otp_attempts s + 1 in
            if attempts \<ge> 3 then
              (add_message s Assistant max_attempts_text (Some Verification_agent))
                \<lparr> otp_sent := False, otp_code := None, otp_attempts := 0,
                  active_agent := Master_agent, next_action := None \<rparr>
            else
              (add_message s Assistant (incorrect_otp_text attempts) (Some Verification_agent))
                \<lparr> otp_attempts := attempts,
                  active_agent := Master_agent, next_action := None \<rparr>))
      else
        (add_message s Assistant no_otp_text (Some Verification_agent))
          \<lparr> active_agent := Master_agent, next_action := None \<rparr>)"

text \<open>
  The address the message gives, if any. \<open>split("is", 1)[1]\<close> is taken on the
  message as typed while the test before it is on the lower-cased message, so it raises
  when the message has no lower-case \<open>is\<close>.
\<close>

definition address_keywords :: "string list" where
  "address_keywords = [''street'', ''road'', ''lane'', ''block'', ''sector'', ''city'', ''pincode'', ''pin'']"

definition address_text :: "string \<Rightarrow> error + string option" where
  "address_text last_user_msg =
     (let lower_msg = lower last_user_msg;
          first =
            (if startswith lower_msg ''address:'' then
               (case after_first last_user_msg '':'' of
                  None \<Rightarrow> Inl IndexError | Some t \<Rightarrow> Inr (Some (strip t)))
             else if startswith lower_msg ''my address is'' then
               (case after_first last_user_msg ''is'' of
                  None \<Rightarrow> Inl IndexError | Some t \<Rightarrow> Inr (Some (strip t)))
             else if contains lower_msg ''address is'' then
               (case find_str lower_msg ''address is'' of
                  None \<Rightarrow> Inr None
                | Some idx \<Rightarrow> Inr (Some (strip (drop (idx + length ''address is'') last_user_msg))))
             else Inr None)
      in case first of
           Inl err \<Rightarrow> Inl err
         | Inr addr_text \<Rightarrow>
             if \<not> truthy_str addr_text \<and> any_in address_keywords lower_msg
                \<and> length last_user_msg > 10
             then Inr (Some (strip last_user_msg))
             else Inr addr_text)"

definition verify_address_block :: "env \<Rightarrow> loan_state \<Rightarrow> string \<Rightarrow> error + loan_state" where
  "verify_address_block e s last_user_msg =
     (case address_text last_user_msg of
        Inl err \<Rightarrow> Inl err
      | Inr addr_text \<Rightarrow>
          if truthy_str addr_text \<and> truthy_str (customer_id s) then
            (let (message, verified) = verify_address e (the (customer_id s)) (the addr_text);
                 new_state = add_message s Assistant message (Some Verification_agent);
                 flagged = new_state\<lparr> active_agent := Master_agent, next_action := None \<rparr>
             in Inr (if verified then flagged\<lparr> address_verified := True \<rparr> else flagged))
          else Inr s)"

text \<open>
  The identity patterns, all searched with \<open>re.IGNORECASE\<close>:
  \<open>\bpan\s*[:\-]?\s*([A-Z]{5}[0-9]{4}[A-Z])\b\<close>,
  \<open>\baadhaar|aadhar\b.*?(\d{4})\<close>,
  \<open>\bdob\s*[:\-]?\s*([0-9]{4}-[0-9]{2}-[0-9]{2}|[0-9]{2}/[0-9]{2}/[0-9]{4})\b\<close>,
  \<open>\bemail\s*[:\-]?\s*([A-Z0-9._%+-]+@[A-Z0-9.-]+\.[A-Z]{2,})\b\<close>,
  \<open>\b(alt|alternate)\s*phone\s*[:\-]?\s*(\+?\d{10,13})\b\<close>.
\<close>

definition sep :: regex where
  "sep = seqs [spaces, opt (Cls '':-''), spaces]"

definition pan_pattern :: regex where
  "pan_pattern =
     icase (seqs [Bnd, str ''pan'', sep,
                  Grp 1 (seqs [rep 5 (Cls upper_chars), rep 4 (Cls digit_chars), Cls upper_chars]),
                  Bnd])"

definition aadhaar_pattern :: regex where
  "aadhaar_pattern =
     icase (Alt (seqs [Bnd, str ''aadhaar''])
                (seqs [str ''aadhar'', Bnd, LazyStar AnyChar, Grp 1 (rep 4 digit)]))"

definition dob_pattern :: regex where
  "dob_pattern =
     icase (seqs [Bnd, str ''dob'', sep,
                  Grp 1 (Alt (seqs [rep 4 digit, Lit CHR ''-'', rep 2 digit, Lit CHR ''-'', rep 2 digit])
                             (seqs [rep 2 digit, Lit CHR ''/'', rep 2 digit, Lit CHR ''/'', rep 4 digit])),
                  Bnd])"

definition email_pattern :: regex where
  "email_pattern =
     icase (seqs [Bnd, str ''email'', sep,
                  Grp 1 (seqs [plus (Cls (upper_chars @ digit_chars @ ''._%+-'')), Lit CHR ''@'',
                               plus (Cls (upper_chars @ digit_chars @ ''.-'')), Lit CHR ''.'',
                               rep_min 2 (Cls upper_chars)]),
                  Bnd])"

definition alt_phone_pattern :: regex where
  "alt_phone_pattern =
     icase (seqs [Bnd, Grp 1 (Alt (str ''alt'') (str ''alternate'')), spaces, str ''phone'', sep,
                  Grp 2 (seqs [opt (Lit CHR ''+''), rep_range 10 13 digit]),
                  Bnd])"

text \<open>\<open>"\n".join(msgs)\<close>\<close>

fun join_lines :: "string list \<Rightarrow> string" where
  "join_lines [] = []"
| "join_lines [x] = x"
| "join_lines (x # xs) = x @ ''\<newline>'' @ join_lines xs"

text \<open>
  The identity fields found in the message are written to the record, and one message
  lists what was captured. A match of the first alternative of the Aadhaar pattern has no
  group 1 and writes \<open>None\<close>.
\<close>

definition capture_kyc :: "loan_state \<Rightarrow> string \<Rightarrow> loan_state" where
  "capture_kyc s last_user_msg =
     (let pan_match = re_search pan_pattern last_user_msg;
          aad_last4 = re_search aadhaar_pattern last_user_msg;
          dob_match = re_search dob_pattern last_user_msg;
          email_match = re_search email_pattern last_user_msg;
          alt_phone_match = re_search alt_phone_pattern last_user_msg;
          s1 = (case pan_match of None \<Rightarrow> s
                | Some m \<Rightarrow> s\<lparr> kyc_pan := map_option upper (group m 1) \<rparr>);
          s2 = (case aad_last4 of None \<Rightarrow> s1
                | Some m \<Rightarrow> s1\<lparr> kyc_aadhaar_last4 := group m 1 \<rparr>);
          s3 = (case dob_match of None \<Rightarrow> s2 | Some m \<Rightarrow> s2\<lparr> kyc_dob := group m 1 \<rparr>);
          s4 = (case email_match of None \<Rightarrow> s3 | Some m \<Rightarrow> s3\<lparr> kyc_email := group m 1 \<rparr>);
          s5 = (case alt_phone_match of None \<Rightarrow> s4 | Some m \<Rightarrow> s4\<lparr> alt_phone := group m 2 \<rparr>);
          msgs = (if pan_match \<noteq> None then [''PAN captured ''] else [])
               @ (if aad_last4 \<noteq> None then [''Aadhaar last 4 captured ''] else [])
               @ (if dob_match \<noteq> None then [''DOB captured ''] else [])
               @ (if email_match \<noteq> None then [''Email captured ''] else [])
               @ (if alt_phone_match \<noteq> None then [''Alternate phone captured ''] else [])
      in if msgs \<noteq> [] then add_message s5 Assistant (join_lines msgs) (Some Verification_agent)
         else s)"

definition confirm_identity :: "loan_state \<Rightarrow> loan_state" where
  "confirm_identity s =
     (if \<not> kyc_verified s \<and> truthy_str (kyc_pan s) \<and> truthy_str (kyc_dob s)
         \<and> truthy_str (kyc_email s)
      then (add_message s Assistant '' Identity details verified successfully.''
              (Some Verification_agent))\<lparr> kyc_verified := True \<rparr>
      else s)"

text \<open>Whether the verification sub-flow has started: any captured field or flag.\<close>

definition verification_started :: "loan_state \<Rightarrow> bool" where
  "verification_started s =
     (truthy_str (kyc_pan s) \<or> truthy_str (kyc_dob s) \<or> truthy_str (kyc_email s)
      \<or> phone_verified s \<or> address_verified s)"

definition verification_agent_node :: "env \<Rightarrow> loan_state \<Rightarrow> error + loan_state" where
  "verification_agent_node e s =
     (let last_user = map_option strip (last_user_content (conversation_history s));
          last_user_msg = or_empty last_user in
      if \<not> verification_started s \<and> \<not> otp_sent s then
        (case start_verification e s of
           Start_ok message c \<Rightarrow>
             Inr ((add_message s Assistant message (Some Verification_agent))
                    \<lparr> active_agent := Master_agent, next_action := None \<rparr>)
         | Start_failed err \<Rightarrow>
             Inr (s\<lparr> active_agent := Master_agent, last_error := Some err \<rparr>))
      else if last_user_msg \<noteq> [] \<and> any_in otp_keywords (lower last_user_msg)
              \<and> truthy_str (customer_id s)
      then Inr (request_otp e s (the (customer_id s)))
      else
        (let s1 = (if last_user_msg \<noteq> [] \<and> found otp_token_pattern last_user_msg
                   then check_otp e s last_user_msg else s) in
         if last_user_msg \<noteq> [] then
           (case verify_address_block e s1 last_user_msg of
              Inl err \<Rightarrow> Inl err
            | Inr s2 \<Rightarrow>
                Inr ((confirm_identity (capture_kyc s2 last_user_msg))
                       \<lparr> active_agent := Master_agent, next_action := None \<rparr>))
         else Inr ((confirm_identity s1)\<lparr> active_agent := Master_agent, next_action := None \<rparr>)))"

subsection \<open>The sales node\<close>

text \<open>\<open>option\s*(\d+)\<close>\<close>

definition option_number_pattern :: regex where
  "option_number_pattern = seqs [str ''option'', spaces, Grp 1 (plus digit)]"

text \<open>\<open>min(xs, key=f)\<close> on a list with head \<open>x\<close>: the first element with the least key.\<close>

fun min_by :: "('a \<Rightarrow> int) \<Rightarrow> 'a \<Rightarrow> 'a list \<Rightarrow> 'a" where
  "min_by f best [] = best"
| "min_by f best (x # xs) = min_by f (if f x < f best then x else best) xs"

text \<open>The offer the message selects, by option number or by tenure.\<close>

definition select_offer :: "offer list \<Rightarrow> string \<Rightarrow> offer option" where
  "select_offer offers_for_selection last_user_msg =
     (let opt_match = re_search option_number_pattern last_user_msg;
          ten_match = re_search tenure_pattern last_user_msg in
      case offers_for_selection of
        [] \<Rightarrow> None
      | first_offer # more_offers \<Rightarrow>
          (case opt_match of
             Some m \<Rightarrow>
               (let idx = max 0 (min (int_of_digits (or_empty (group m 1)) - 1)
                                     (int (length offers_for_selection) - 1))
                in Some (offers_for_selection ! nat idx))
           | None \<Rightarrow>
               (case ten_match of
                  None \<Rightarrow> None
                | Some m \<Rightarrow>
                    (let n = int_of_digits (or_empty (group m 1));
                         unit_word = or_empty (group m 2);
                         months = (if startswith unit_word ''y'' \<or> startswith unit_word ''yr''
                                   then n * 12 else n)
                     in Some (min_by (\<lambda>x. \<bar>offer_tenure_months x - months\<bar>) first_offer more_offers)))))"

text \<open>The offer a negotiation is about: the one with the chosen tenure, else the second.\<close>

definition current_offer_of :: "loan_state \<Rightarrow> offer option" where
  "current_offer_of s =
     (let offers = recommended_offers s;
          by_tenure = (if truthy_num (tenure_months s)
                       then List.find (\<lambda>x. Some (offer_tenure_months x) = tenure_months s) offers
                       else None)
      in case by_tenure of
           Some x \<Rightarrow> Some x
         | None \<Rightarrow> if offers \<noteq> [] then Some (offers ! (min 1 (length offers - 1))) else None)"

definition ask_amount_text :: string where
  "ask_amount_text = ''Could you please confirm the loan amount you need (e.g., 3 lakh, 500000, 50k)?''"

text \<open>The last part of the node: ask for the amount, or present the offers.\<close>

definition present_offers :: "env \<Rightarrow> loan_state \<Rightarrow> loan_state" where
  "present_offers e s =
     (if \<not> truthy_float (requested_amount s) then
        (add_message s Assistant ask_amount_text (Some Sales_agent))
          \<lparr> active_agent := Master_agent, next_action := None \<rparr>
      else
        (case process_sales e s (the (requested_amount s)) (customer_needs s) of
           Sales_ok offers recommended_offer presentation \<Rightarrow>
             (add_message s Assistant presentation (Some Sales_agent))
               \<lparr> recommended_offers := offers,
                 tenure_months := Some (offer_tenure_months recommended_offer),
                 interest_rate := Some (offer_interest_rate recommended_offer),
                 monthly_emi := Some (offer_monthly_emi recommended_offer),
                 active_agent := Master_agent, next_action := None \<rparr>
         | Sales_failed err \<Rightarrow>
             s\<lparr> active_agent := Master_agent, next_action := None, last_error := err \<rparr>))"

definition negotiate :: "env \<Rightarrow> loan_state \<Rightarrow> string \<Rightarrow> offer \<Rightarrow> loan_state" where
  "negotiate e s last_user_msg current_offer =
     (let nres = handle_negotiation e s last_user_msg current_offer;
          new_state = (add_message s Assistant (neg_response nres) (Some Sales_agent))
                        \<lparr> active_agent := Master_agent, next_action := None \<rparr>
      in if negotiation_approved nres then
           new_state\<lparr> interest_rate := Some (case new_rate nres of
                                               Some r \<Rightarrow> r | None \<Rightarrow> offer_interest_rate current_offer),
                      monthly_emi := Some (case new_emi nres of
                                             Some r \<Rightarrow> r | None \<Rightarrow> offer_monthly_emi current_offer) \<rparr>
         else new_state)"

definition sales_agent_node :: "env \<Rightarrow> loan_state \<Rightarrow> loan_state" where
  "sales_agent_node e s =
     (let last_user_msg = or_empty (map_option lower (last_user_content (conversation_history s)));
          selected = (if last_user_msg \<noteq> [] then select_offer (recommended_offers s) last_user_msg
                      else None)
      in case selected of
           Some sel \<Rightarrow>
             (add_message s Assistant (selection_text e sel s) (Some Sales_agent))
               \<lparr> selected_offer := Some sel,
                 tenure_months := Some (offer_tenure_months sel),
                 interest_rate := Some (offer_interest_rate sel),
                 monthly_emi := Some (offer_monthly_emi sel),
                 active_agent := Master_agent, next_action := None \<rparr>
         | None \<Rightarrow>
             if last_user_msg \<noteq> [] \<and> recommended_offers s \<noteq> []
                \<and> (any_in negotiation_cues last_user_msg \<or> found percent_pattern last_user_msg)
             then
               (let current_offer =
                      (case current_offer_of s of
                         Some x \<Rightarrow> Some x
                       | None \<Rightarrow>
                           (case process_sales e s
                                   (if truthy_float (requested_amount s) then the (requested_amount s)
                                    else Finite 100000)
                                   (customer_needs s) of
                              Sales_ok (x # _) _ _ \<Rightarrow> Some x
                            | _ \<Rightarrow> None))
                in case current_offer of
                     Some x \<Rightarrow> negotiate e s last_user_msg x
                   | None \<Rightarrow> present_offers e s)
             else present_offers e s)"

subsection \<open>The underwriting and sanction nodes\<close>

definition underwriting_agent_node :: "env \<Rightarrow> loan_state \<Rightarrow> loan_state" where
  "underwriting_agent_node e s =
     (case process_underwriting e s of
        Uw_ok r \<Rightarrow>
          (let new_state = add_message s Assistant (uw_message r) (Some Underwriting_agent);
               new_state = new_state
                 \<lparr> credit_score := uw_credit_score r,
                   risk_score := uw_risk_score r,
                   underwriting_decision := Some (uw_decision r),
                   approved_amount := uw_approved_amount r,
                   conditional_requirements := uw_conditions r,
                   rejection_reason := uw_reason r,
                   monthly_emi := (case uw_monthly_emi r of
                                     Some v \<Rightarrow> Some v | None \<Rightarrow> monthly_emi new_state),
                   total_monthly_obligation :=
                     (case uw_total_monthly_obligation r of
                        Some v \<Rightarrow> Some v | None \<Rightarrow> total_monthly_obligation new_state),
                   emi_to_income_ratio :=
                     (case uw_emi_to_income_ratio r of
                        Some v \<Rightarrow> Some v | None \<Rightarrow> emi_to_income_ratio new_state),
                   underwriting_recommendations := uw_recommendations r,
                   active_agent := Master_agent,
                   next_action := None \<rparr>
           in if uw_decision r = Approved then new_state\<lparr> application_status := Status_approved \<rparr>
              else if uw_decision r = Rejected then new_state\<lparr> application_status := Status_rejected \<rparr>
              else new_state)
      | Uw_failed err \<Rightarrow> s\<lparr> active_agent := Master_agent, last_error := err \<rparr>)"

definition sanction_agent_node :: "env \<Rightarrow> loan_state \<Rightarrow> loan_state" where
  "sanction_agent_node e s =
     (case generate_sanction e s of
        Sanction_ok message url ref_no \<Rightarrow>
          (add_message s Assistant message (Some Sanction_agent))
            \<lparr> sanction_letter_url := Some url,
              sanction_letter_ref_no := Some ref_no,
              current_stage := Closure,
              active_agent := Master_agent,
              next_action := None \<rparr>
      | Sanction_failed err \<Rightarrow> s\<lparr> active_agent := Master_agent, last_error := err \<rparr>)"

subsection \<open>The graph and the session boundary\<close>

text \<open>One execution of a node of the graph.\<close>

definition run_node :: "env \<Rightarrow> agent_name \<Rightarrow> loan_state \<Rightarrow> error + loan_state" where
  "run_node e nd s =
     (case nd of
        Master_agent \<Rightarrow> Inr (master_agent_node e s)
      | Sales_agent \<Rightarrow> Inr (sales_agent_node e s)
      | Verification_agent \<Rightarrow> verification_agent_node e s
      | Underwriting_agent \<Rightarrow> Inr (underwriting_agent_node e s)
      | Sanction_agent \<Rightarrow> Inr (sanction_agent_node e s))"

text \<open>
  The edges of \<open>create_workflow\<close>: the conditional edges out of the orchestrator, and
  the edge from every specialist back to the orchestrator. \<open>None\<close> is \<open>END\<close>.
\<close>

definition next_node :: "agent_name \<Rightarrow> loan_state \<Rightarrow> agent_name option" where
  "next_node nd s =
     (if nd = Master_agent then
        (case route_master_agent s of
           To_sales \<Rightarrow> Some Sales_agent
         | To_verification \<Rightarrow> Some Verification_agent
         | To_underwriting \<Rightarrow> Some Underwriting_agent
         | To_sanction \<Rightarrow> Some Sanction_agent
         | To_master \<Rightarrow> Some Master_agent
         | To_end \<Rightarrow> None)
      else Some Master_agent)"

text \<open>
  \<open>workflow.invoke\<close> from a node: nodes run one after the other until the router ends
  the cycle; the library raises \<open>GraphRecursionError\<close> after \<open>limit\<close> node
  executions without reaching the end. The result is the final record and the nodes that
  ran, in order.
\<close>

fun invoke_from :: "env \<Rightarrow> nat \<Rightarrow> agent_name \<Rightarrow> loan_state \<Rightarrow> error + loan_state \<times> agent_name list" where
  "invoke_from e 0 nd s = Inl GraphRecursionError"
| "invoke_from e (Suc limit) nd s =
     (case run_node e nd s of
        Inl err \<Rightarrow> Inl err
      | Inr s' \<Rightarrow>
          (case next_node nd s' of
             None \<Rightarrow> Inr (s', [nd])
           | Some nd' \<Rightarrow>
               (case invoke_from e limit nd' s' of
                  Inl err \<Rightarrow> Inl err
                | Inr (s'', nodes) \<Rightarrow> Inr (s'', nd # nodes))))"

definition invoke :: "env \<Rightarrow> nat \<Rightarrow> loan_state \<Rightarrow> error + loan_state \<times> agent_name list" where
  "invoke e limit s = invoke_from e limit Master_agent s"

text \<open>The text \<open>process_message\<close> returns: the last assistant message of the whole log.\<close>

definition last_response :: "loan_state \<Rightarrow> string" where
  "last_response result =
     (let assistant_messages =
            map content (filter (\<lambda>msg. role msg = Assistant) (conversation_history result))
      in case last_opt assistant_messages of None \<Rightarrow> [] | Some c \<Rightarrow> c)"

datatype reply = Failure string | Success string loan_state

text \<open>
  \<open>LoanApplicationWorkflow\<close>: the sessions are a map from session id to record. 
  \<open>create_session\<close> draws a random id; here the id is an argument.
\<close>

definition create_session ::
  "(string \<rightharpoonup> loan_state) \<Rightarrow> string \<Rightarrow> string option \<Rightarrow> (string \<rightharpoonup> loan_state)" where
  "create_session sessions session_id cid = sessions(session_id \<mapsto> create_initial_state cid)"

definition process_message ::
  "env \<Rightarrow> nat \<Rightarrow> (string \<rightharpoonup> loan_state) \<Rightarrow> string \<Rightarrow> string
     \<Rightarrow> error + (string \<rightharpoonup> loan_state) \<times> reply" where
  "process_message e limit sessions session_id user_message =
     (case sessions session_id of
        None \<Rightarrow> Inr (sessions, Failure ''Session not found'')
      | Some state \<Rightarrow>
          (case invoke e limit (add_message state User user_message None) of
             Inl err \<Rightarrow> Inl err
           | Inr (result, nodes) \<Rightarrow>
               Inr (sessions(session_id \<mapsto> result), Success (last_response result) result)))"

section \<open>Runs of several calls, and concrete collaborators\<close>

text \<open>
  A session that receives several messages, one \<open>process_message\<close> call each. Every
  call has its own collaborators and recursion limit, since the environment may change
  between calls. A call that raises ends the run with its error.
\<close>

fun process_messages ::
  "(env \<times> nat \<times> string) list \<Rightarrow> (string \<rightharpoonup> loan_state) \<Rightarrow> string
     \<Rightarrow> error + (string \<rightharpoonup> loan_state)" where
  "process_messages [] sessions session_id = Inr sessions"
| "process_messages ((e, limit, user_message) # calls) sessions session_id =
     (case process_message e limit sessions session_id user_message of
        Inl err \<Rightarrow> Inl err
      | Inr (sessions', r) \<Rightarrow> process_messages calls sessions' session_id)"

text \<open>
  Collaborators for the concrete runs below: a customer database with one customer, no
  Twilio configuration, a fixed demo code, and a sales agent that answers with one offer.
\<close>

definition demo_customer :: customer where
  "demo_customer = \<lparr> cust_name = ''Asha'', cust_phone = ''9876543210'', cust_city = ''Pune'',
                      cust_kyc_status = ''verified'' \<rparr>"

definition demo_offer :: offer where
  "demo_offer = \<lparr> offer_amount = 300000, offer_tenure_months = 36, offer_interest_rate = 12 / 100,
                  offer_monthly_emi = 9964 \<rparr>"

definition demo_env :: env where
  "demo_env =
     \<lparr> llm_reply = (\<lambda>s m. ''Noted.''),
       get_customer_by_id = (\<lambda>i. if i = ''CUST001'' then Some demo_customer else None),
       getenv = (\<lambda>v. None),
       twilio_create_verification = (\<lambda>p. Inl ''Twilio client not available''),
       twilio_create_check = (\<lambda>p c. Inl ''Twilio client not available''),
       simulate_otp_generation = (\<lambda>p. ''123456''),
       verify_customer_details = (\<lambda>i a. \<lparr> details_verified = True, details_mismatches = [] \<rparr>),
       process_sales = (\<lambda>s a n. Sales_ok [demo_offer] demo_offer ''Here is an offer.''),
       handle_negotiation = (\<lambda>s m x. \<lparr> neg_response = ''Let me check.'', negotiation_approved = False,
                                          new_rate = None, new_emi = None \<rparr>),
       selection_text = (\<lambda>x s. ''Great choice!''),
       process_underwriting = (\<lambda>s. Uw_failed (Some ''Assessment unavailable'')),
       generate_sanction = (\<lambda>s. Sanction_failed (Some ''Generator unavailable'')) \<rparr>"

text \<open>The same with Twilio configured; the code it accepts is 654321.\<close>

definition twilio_env :: env where
  "twilio_env =
     demo_env\<lparr> getenv := (\<lambda>v. Some ''set''),
               twilio_create_verification := (\<lambda>p. Inr ''pending''),
               twilio_create_check := (\<lambda>p c. Inr (if c = ''654321'' then ''approved'' else ''pending'')) \<rparr>"

definition user_msg :: "string \<Rightarrow> message" where
  "user_msg c = \<lparr> role = User, content = c, agent = None \<rparr>"

definition assistant_msg :: "string \<Rightarrow> message" where
  "assistant_msg c = \<lparr> role = Assistant, content = c, agent = Some Master_agent \<rparr>"

text \<open>Records for the concrete runs: a session in a given stage whose last entry is a
  user message, and one whose last entry is an assistant reply.\<close>

definition staged :: "stage \<Rightarrow> string \<Rightarrow> loan_state" where
  "staged st text =
     (create_initial_state (Some ''CUST001''))
       \<lparr> conversation_history := [assistant_msg ''Welcome.'', user_msg text],
         current_stage := st, total_interactions := 2 \<rparr>"

definition replied :: "stage \<Rightarrow> loan_state" where
  "replied st =
     (create_initial_state (Some ''CUST001''))
       \<lparr> conversation_history := [user_msg ''hello'', assistant_msg ''Welcome.''],
         current_stage := st, total_interactions := 2 \<rparr>"

text \<open>A record in the verification stage to which the demo fallback has sent the code
  123456, with \<open>n\<close> failed attempts so far.\<close>

definition code_sent :: "int \<Rightarrow> string \<Rightarrow> loan_state" where
  "code_sent n text =
     (staged Verification text)
       \<lparr> otp_sent := True, otp_provider := Some Demo, otp_code := Some ''123456'',
         otp_phone := Some ''+919876543210'', otp_attempts := n \<rparr>"

text \<open>A record in the verification stage whose address has been verified, so that the
  verification sub-flow has started; its last entry is an assistant reply.\<close>

definition address_confirmed :: loan_state where
  "address_confirmed = (replied Verification)\<lparr> address_verified := True \<rparr>"


section \<open>Predicates used in the properties\<close>

text \<open>
  \<open>grows_by n s s'\<close>: the log of \<open>s'\<close> is the log of \<open>s\<close> followed by at most
  \<open>n\<close> messages, all from the assistant, and the interaction counter went up by the
  number of messages added.
\<close>

definition grows_by :: "nat \<Rightarrow> loan_state \<Rightarrow> loan_state \<Rightarrow> bool" where
  "grows_by n s s' =
     (let h = conversation_history s; h' = conversation_history s' in
      length h \<le> length h' \<and> take (length h) h' = h \<and> length h' \<le> length h + n
      \<and> list_all (\<lambda>m. role m = Assistant) (drop (length h) h')
      \<and> total_interactions s' = total_interactions s + int (length h' - length h))"

text \<open>The stored code belongs to the demo fallback.\<close>

definition code_only_on_fallback :: "loan_state \<Rightarrow> bool" where
  "code_only_on_fallback s = (otp_code s = None \<or> otp_provider s = Some Demo)"

text \<open>No verification signal yet: nothing captured, nothing verified, no code sent.\<close>

definition verification_idle :: "loan_state \<Rightarrow> bool" where
  "verification_idle s = (\<not> verification_started s \<and> \<not> otp_sent s)"

text \<open>The fields that say how far verification has come and which code is stored.\<close>

definition verification_fields ::
  "loan_state \<Rightarrow> bool \<times> provider option \<times> string option \<times> string option \<times> string option
     \<times> string option \<times> bool \<times> bool" where
  "verification_fields s =
     (otp_sent s, otp_provider s, otp_code s, kyc_pan s, kyc_dob s, kyc_email s,
      phone_verified s, address_verified s)"

section \<open>Basic facts\<close>

lemma last_opt_Nil [simp]: "last_opt [] = None"
  by (simp add: last_opt_def)

lemma last_opt_snoc [simp]: "last_opt (xs @ [x]) = Some x"
  by (simp add: last_opt_def)

lemma last_opt_single [simp]: "last_opt [x] = Some x"
  by (simp add: last_opt_def)

lemma last_opt_Some_iff: "last_opt xs = Some x \<longleftrightarrow> (\<exists>ys. xs = ys @ [x])"
  by (cases xs rule: rev_cases) (auto simp: last_opt_def)

lemma staged_last: "last_opt (conversation_history (staged st t)) = Some (user_msg t)"
  by (simp add: staged_def last_opt_def)

lemma user_msg_simps [simp]: "role (user_msg t) = User" "content (user_msg t) = t"
  by (simp_all add: user_msg_def)

lemma assistant_msg_simps [simp]: "role (assistant_msg t) = Assistant" "content (assistant_msg t) = t"
  by (simp_all add: assistant_msg_def)

lemma master_node_user:
  assumes "last_opt (conversation_history s) = Some m" and "role m = User"
  shows "current_stage (master_agent_node e s)
           = fst (snd (determine_next_action (current_stage s) (content m) s))"
    and "next_action (master_agent_node e s)
           = fst (determine_next_action (current_stage s) (content m) s)"
  using assms
  by (simp_all add: master_agent_node_def master_process_message_def add_message_def Let_def
      split: prod.splits)

section \<open>The router ends the cycle after a reply\<close>

text \<open>
  C1, as the code has it. When the most recent entry of the log is an assistant message
  and no delegation is pending, the router ends the cycle, and the orchestrator, if it is
  entered on such a record, returns it unchanged.
\<close>

theorem router_ends_after_reply:
  assumes "last_opt (conversation_history s) = Some m" and "role m = Assistant"
    and "next_action s = None"
  shows "route_master_agent s = To_end \<and> master_agent_node e s = s"
  using assms by (simp add: route_master_agent_def master_agent_node_def)

theorem router_ends_after_reply_witness:
  "last_opt (conversation_history (replied Verification)) = Some (assistant_msg ''Welcome.'')
   \<and> role (assistant_msg ''Welcome.'') = Assistant
   \<and> next_action (replied Verification) = None
   \<and> route_master_agent (replied Verification) = To_end
   \<and> master_agent_node demo_env (replied Verification) = replied Verification"
proof -
  have h1: "last_opt (conversation_history (replied Verification)) = Some (assistant_msg ''Welcome.'')"
    by (simp add: replied_def last_opt_def)
  have h2: "role (assistant_msg ''Welcome.'') = Assistant"
    by simp
  have h3: "next_action (replied Verification) = None"
    by (simp add: replied_def create_initial_state_def)
  show ?thesis
    using h1 h2 h3 router_ends_after_reply [OF h1 h2 h3, of demo_env] by simp
qed

text \<open>
  The second half of C1 fails: one call can add two assistant replies for one inbound
  message. A new session receives "I need 3 lakh rupees"; the orchestrator replies and
  delegates to sales, and the sales stage replies with its offer.
\<close>

theorem two_replies_in_one_call:
  "(case process_message demo_env 25 (create_session Map.empty ''s1'' None) ''s1''
           ''I need 3 lakh rupees'' of
      Inr (sessions, Success response result) \<Rightarrow>
        map role (conversation_history result) = [User, Assistant, Assistant]
        \<and> map agent (conversation_history result) = [None, Some Master_agent, Some Sales_agent]
    | _ \<Rightarrow> False)"
  by code_simp

section \<open>The orchestrator in the underwriting and document stages\<close>

text \<open>
  C7. With the cursor at underwriting and a user message as last entry, the orchestrator
  branches on the underwriting decision: needs\_documents moves the cursor to
  document\_upload without delegating, approved delegates to sanction, rejected moves the
  cursor to closure, anything else stays. With the cursor at document\_upload and the
  upload flag set, it delegates to underwriting, and the router sends the record there.
\<close>

theorem underwriting_branches:
  assumes "last_opt (conversation_history s) = Some m" and "role m = User"
  shows "(current_stage s = Underwriting \<and> underwriting_decision s = Some Needs_documents \<longrightarrow>
            current_stage (master_agent_node e s) = Document_upload
            \<and> next_action (master_agent_node e s) = None)
       \<and> (current_stage s = Underwriting \<and> underwriting_decision s = Some Approved \<longrightarrow>
            next_action (master_agent_node e s) = Some Delegate_to_sanction
            \<and> route_master_agent (master_agent_node e s) = To_sanction)
       \<and> (current_stage s = Underwriting \<and> underwriting_decision s = Some Rejected \<longrightarrow>
            current_stage (master_agent_node e s) = Closure
            \<and> next_action (master_agent_node e s) = None)
       \<and> (current_stage s = Underwriting
            \<and> underwriting_decision s \<notin> {Some Needs_documents, Some Approved, Some Rejected} \<longrightarrow>
            current_stage (master_agent_node e s) = Underwriting
            \<and> next_action (master_agent_node e s) = None)
       \<and> (current_stage s = Document_upload \<and> salary_slip_uploaded s \<longrightarrow>
            current_stage (master_agent_node e s) = Underwriting
            \<and> next_action (master_agent_node e s) = Some Delegate_to_underwriting
            \<and> route_master_agent (master_agent_node e s) = To_underwriting)"
  using assms
  by (auto simp: master_node_user determine_next_action_def route_master_agent_def
      split: option.splits decision.splits)

theorem underwriting_branches_witness:
  "last_opt (conversation_history (staged Underwriting ''any news?'')) = Some (user_msg ''any news?'')
   \<and> role (user_msg ''any news?'') = User
   \<and> current_stage
        (master_agent_node demo_env
           ((staged Underwriting ''any news?'')\<lparr> underwriting_decision := Some Needs_documents \<rparr>))
       = Document_upload
   \<and> route_master_agent
        (master_agent_node demo_env
           ((staged Underwriting ''any news?'')\<lparr> underwriting_decision := Some Approved \<rparr>))
       = To_sanction
   \<and> current_stage
        (master_agent_node demo_env
           ((staged Underwriting ''any news?'')\<lparr> underwriting_decision := Some Rejected \<rparr>))
       = Closure
   \<and> current_stage (master_agent_node demo_env (staged Underwriting ''any news?'')) = Underwriting
   \<and> route_master_agent
        (master_agent_node demo_env
           ((staged Document_upload ''uploaded'')\<lparr> salary_slip_uploaded := True \<rparr>))
       = To_underwriting"
proof -
  have h2: "role (user_msg t) = User" for t
    by simp
  have h1: "last_opt (conversation_history ((staged st t)\<lparr> underwriting_decision := d \<rparr>))
              = Some (user_msg t)" for st t d
    by (simp add: staged_def last_opt_def)
  have h1': "last_opt (conversation_history ((staged st t)\<lparr> salary_slip_uploaded := b \<rparr>))
              = Some (user_msg t)" for st t b
    by (simp add: staged_def last_opt_def)
  have h0: "last_opt (conversation_history (staged st t)) = Some (user_msg t)" for st t
    by (simp add: staged_def last_opt_def)
  show ?thesis
    using h0 h2
      underwriting_branches [OF h1 [where st = Underwriting and t = "''any news?''" and d = "Some Needs_documents"] h2, of demo_env]
      underwriting_branches [OF h1 [where st = Underwriting and t = "''any news?''" and d = "Some Approved"] h2, of demo_env]
      underwriting_branches [OF h1 [where st = Underwriting and t = "''any news?''" and d = "Some Rejected"] h2, of demo_env]
      underwriting_branches [OF h0 [where st = Underwriting and t = "''any news?''"] h2, of demo_env]
      underwriting_branches [OF h1' [where st = Document_upload and t = "''uploaded''" and b = True] h2, of demo_env]
    by (simp add: staged_def create_initial_state_def)
qed

section \<open>The router in the verification stage\<close>

text \<open>
  C8. With the cursor at verification and no pending action, the router routes to the
  verification stage exactly when the most recent entry is a user message that contains
  one of the code-request phrases or, with a code sent, a token of four to six digits.
  The decision of the router is the same for any two logs with the same last entry.
\<close>

theorem verification_reroute:
  "(current_stage s = Verification \<and> next_action s = None \<longrightarrow>
      (route_master_agent s = To_verification) =
      (\<exists>m. last_opt (conversation_history s) = Some m \<and> role m = User
           \<and> (any_in otp_keywords (lower (content m))
               \<or> (otp_sent s \<and> found otp_token_pattern (lower (content m))))))
   \<and> route_master_agent (s\<lparr> conversation_history := earlier @ [m] \<rparr>)
     = route_master_agent (s\<lparr> conversation_history := other @ [m] \<rparr>)"
  by (auto simp: route_master_agent_def split: option.splits action.splits)

theorem verification_reroute_witness:
  "current_stage (code_sent 0 ''482913'') = Verification
   \<and> next_action (code_sent 0 ''482913'') = None
   \<and> route_master_agent (code_sent 0 ''482913'') = To_verification
   \<and> last_opt (conversation_history (code_sent 0 ''482913'')) = Some (user_msg ''482913'')
   \<and> found otp_token_pattern (lower (content (user_msg ''482913'')))
   \<and> route_master_agent (staged Verification ''482913'') \<noteq> To_verification"
proof -
  have h1: "current_stage (code_sent 0 ''482913'') = Verification"
    by (simp add: code_sent_def staged_def)
  have h2: "next_action (code_sent 0 ''482913'') = None"
    by (simp add: code_sent_def staged_def create_initial_state_def)
  have h3: "last_opt (conversation_history (code_sent 0 ''482913'')) = Some (user_msg ''482913'')"
    by (simp add: code_sent_def staged_def last_opt_def)
  have h4: "found otp_token_pattern (lower (content (user_msg ''482913'')))"
    by code_simp
  have h5: "otp_sent (code_sent 0 ''482913'')"
    by (simp add: code_sent_def)
  have g1: "current_stage (staged Verification ''482913'') = Verification"
    by (simp add: staged_def)
  have g2: "next_action (staged Verification ''482913'') = None"
    by (simp add: staged_def create_initial_state_def)
  have g3: "last_opt (conversation_history (staged Verification ''482913'')) = Some (user_msg ''482913'')"
    by (simp add: staged_def last_opt_def)
  have g4: "\<not> any_in otp_keywords (lower (content (user_msg ''482913'')))"
    by code_simp
  have g5: "\<not> otp_sent (staged Verification ''482913'')"
    by (simp add: staged_def create_initial_state_def)
  show ?thesis
    using h1 h2 h3 h4 h5 g1 g2 g3 g4 g5
      verification_reroute [of "code_sent 0 ''482913''" "[]" "user_msg ''x''" "[]"]
      verification_reroute [of "staged Verification ''482913''" "[]" "user_msg ''x''" "[]"]
    by simp
qed

section \<open>The first cycle\<close>

text \<open>
  On a record with an empty log the orchestrator appends the greeting and changes nothing
  else but the interaction counter; with no pending action the cycle then ends.
\<close>

lemma greeting_on_empty_log:
  assumes "conversation_history s = []"
  shows "master_agent_node e s =
           s\<lparr> conversation_history :=
                [\<lparr> role = Assistant, content = generate_greeting (customer_name s),
                   agent = Some Master_agent \<rparr>],
              total_interactions := total_interactions s + 1 \<rparr>
         \<and> (next_action s = None \<longrightarrow>
              invoke e (Suc limit) s = Inr (master_agent_node e s, [Master_agent]))"
  using assms
  by (simp add: master_agent_node_def add_message_def invoke_def run_node_def next_node_def
      route_master_agent_def)

section \<open>The response of a call\<close>





section \<open>Amount extraction\<close>

lemma step_char_no_digit:
  assumes "case rest st of [] \<Rightarrow> True | c # _ \<Rightarrow> \<not> is_digit c"
  shows "matches digit st = []"
  using assms by (auto simp: digit_def step_char_def is_digit_def split: list.splits)

lemma number_grp_no_digit:
  assumes "case rest st of [] \<Rightarrow> True | c # _ \<Rightarrow> \<not> is_digit c"
  shows "matches number_grp st = []"
  using step_char_no_digit [OF assms] by (simp add: number_grp_def plus_def)

lemma digits4_no_digit:
  assumes "case rest st of [] \<Rightarrow> True | c # _ \<Rightarrow> \<not> is_digit c"
  shows "matches digits4_pattern st = []"
  using step_char_no_digit [OF assms]
  by (simp add: digits4_pattern_def rep_min_def eval_nat_numeral)

lemma amount_patterns_no_digit:
  assumes "case rest st of [] \<Rightarrow> True | c # _ \<Rightarrow> \<not> is_digit c"
  shows "matches lakh_pattern st = []" and "matches l_pattern st = []"
    and "matches thousand_pattern st = []"
  using number_grp_no_digit [OF assms]
  by (simp_all add: lakh_pattern_def l_pattern_def thousand_pattern_def)

lemma scan_no_digit:
  assumes "\<And>st. (case rest st of [] \<Rightarrow> True | c # _ \<Rightarrow> \<not> is_digit c) \<Longrightarrow> matches r st = []"
    and "list_all (\<lambda>c. \<not> is_digit c) s"
  shows "scan r p s = None"
  using assms(2)
proof (induction s arbitrary: p)
  case Nil
  have "matches r (p, [], []) = []"
    by (rule assms(1)) (simp add: rest_def)
  then show ?case by simp
next
  case (Cons c cs)
  have "matches r (p, c # cs, []) = []"
    using Cons.prems by (intro assms(1)) (simp add: rest_def)
  then show ?case using Cons by simp
qed

lemma first_amount_no_digit:
  assumes "list_all (\<lambda>c. \<not> is_digit c) t"
  shows "first_amount patterns t = None"
  using assms
  by (simp add: patterns_def re_search_def scan_no_digit amount_patterns_no_digit digits4_no_digit)

lemma truthy_float_iff: "truthy_float (Some a) \<longleftrightarrow> a \<noteq> Finite 0"
  by (cases a) (simp_all add: truthy_float_def)

lemma master_writes_amount:
  assumes "last_opt (conversation_history s) = Some u" and "role u = User"
    and "current_stage s = Greeting" and "\<not> truthy_float (requested_amount s)"
    and "first_amount patterns (lower (content u)) = Some a" and "a \<noteq> Finite 0"
  shows "requested_amount (master_agent_node e s) = Some a"
    and "next_action (master_agent_node e s) = Some Delegate_to_sales"
    and "current_stage (master_agent_node e s) = Sales_negotiation"
  using assms
  by (simp_all add: master_agent_node_def master_process_message_def determine_next_action_def
      add_message_def Let_def truthy_float_iff)

lemma master_drops_zero_amount:
  assumes "last_opt (conversation_history s) = Some u" and "role u = User"
    and "current_stage s = Greeting" and "\<not> truthy_float (requested_amount s)"
    and "first_amount patterns (lower (content u)) = Some (Finite 0)"
  shows "requested_amount (master_agent_node e s) = requested_amount s"
    and "next_action (master_agent_node e s) = None"
    and "current_stage (master_agent_node e s) \<in> {Greeting, Needs_assessment}"
  using assms
  by (simp_all add: master_agent_node_def master_process_message_def determine_next_action_def
      add_message_def Let_def truthy_float_iff)

text \<open>
  C3, as the code has it. The first pattern of the table that matches anywhere in the text
  decides: a number before lakh, lakhs, lac or lacs is multiplied by 100,000; failing
  that, a number before the letter l likewise; failing that, a number before thousand or
  k by 1,000; failing that, a run of four or more digits is taken as it is; a text where
  none matches, and so any text without a digit, gives none. The number is a Python
  float and so is the product. "I need 3 lakh rupees" gives 300000, "need 50k" gives
  50000, "requesting 250000" gives 250000. With the cursor at greeting and no amount on
  the record, an amount other than zero is written to the record, and the orchestrator
  delegates to sales with the cursor at sales\_negotiation; an amount of zero is
  discarded: the record keeps no amount and nothing is delegated.
\<close>

theorem amount_extraction:
  "(re_search lakh_pattern t = Some m \<and> group m 1 = Some g \<longrightarrow>
      first_amount patterns t = Some (fmul (float_of_str g) 100000))
   \<and> (re_search lakh_pattern t = None \<and> re_search l_pattern t = Some m \<and> group m 1 = Some g \<longrightarrow>
      first_amount patterns t = Some (fmul (float_of_str g) 100000))
   \<and> (re_search lakh_pattern t = None \<and> re_search l_pattern t = None
       \<and> re_search thousand_pattern t = Some m \<and> group m 1 = Some g \<longrightarrow>
      first_amount patterns t = Some (fmul (float_of_str g) 1000))
   \<and> (re_search lakh_pattern t = None \<and> re_search l_pattern t = None
       \<and> re_search thousand_pattern t = None
       \<and> re_search digits4_pattern t = Some m \<and> group m 1 = Some g \<longrightarrow>
      first_amount patterns t = Some (fmul (float_of_str g) 1))
   \<and> (re_search lakh_pattern t = None \<and> re_search l_pattern t = None
       \<and> re_search thousand_pattern t = None \<and> re_search digits4_pattern t = None \<longrightarrow>
      first_amount patterns t = None)
   \<and> first_amount patterns (lower ''I need 3 lakh rupees'') = Some (Finite 300000)
   \<and> first_amount patterns (lower ''need 50k'') = Some (Finite 50000)
   \<and> first_amount patterns (lower ''requesting 250000'') = Some (Finite 250000)
   \<and> (list_all (\<lambda>c. \<not> is_digit c) t \<longrightarrow> first_amount patterns t = None)
   \<and> (last_opt (conversation_history s) = Some u \<and> role u = User
       \<and> current_stage s = Greeting \<and> \<not> truthy_float (requested_amount s)
       \<and> first_amount patterns (lower (content u)) = Some a \<and> a \<noteq> Finite 0 \<longrightarrow>
      requested_amount (master_agent_node e s) = Some a
      \<and> next_action (master_agent_node e s) = Some Delegate_to_sales
      \<and> current_stage (master_agent_node e s) = Sales_negotiation)
   \<and> (last_opt (conversation_history s) = Some u \<and> role u = User
       \<and> current_stage s = Greeting \<and> \<not> truthy_float (requested_amount s)
       \<and> first_amount patterns (lower (content u)) = Some (Finite 0) \<longrightarrow>
      requested_amount (master_agent_node e s) = requested_amount s
      \<and> next_action (master_agent_node e s) = None
      \<and> current_stage (master_agent_node e s) \<in> {Greeting, Needs_assessment})"
proof -
  have e1: "first_amount patterns (lower ''I need 3 lakh rupees'') = Some (Finite 300000)"
    by code_simp
  have e2: "first_amount patterns (lower ''need 50k'') = Some (Finite 50000)"
    by code_simp
  have e3: "first_amount patterns (lower ''requesting 250000'') = Some (Finite 250000)"
    by code_simp
  have p1: "re_search lakh_pattern t = Some m \<and> group m 1 = Some g \<longrightarrow>
      first_amount patterns t = Some (fmul (float_of_str g) 100000)"
    by (simp add: patterns_def)
  have p2: "re_search lakh_pattern t = None \<and> re_search l_pattern t = Some m \<and> group m 1 = Some g \<longrightarrow>
      first_amount patterns t = Some (fmul (float_of_str g) 100000)"
    by (simp add: patterns_def)
  have p3: "re_search lakh_pattern t = None \<and> re_search l_pattern t = None
       \<and> re_search thousand_pattern t = Some m \<and> group m 1 = Some g \<longrightarrow>
      first_amount patterns t = Some (fmul (float_of_str g) 1000)"
    by (simp add: patterns_def)
  have p4: "re_search lakh_pattern t = None \<and> re_search l_pattern t = None
       \<and> re_search thousand_pattern t = None
       \<and> re_search digits4_pattern t = Some m \<and> group m 1 = Some g \<longrightarrow>
      first_amount patterns t = Some (fmul (float_of_str g) 1)"
    by (simp add: patterns_def)
  have p5: "re_search lakh_pattern t = None \<and> re_search l_pattern t = None
       \<and> re_search thousand_pattern t = None \<and> re_search digits4_pattern t = None \<longrightarrow>
      first_amount patterns t = None"
    by (simp add: patterns_def)
  have p6: "list_all (\<lambda>c. \<not> is_digit c) t \<longrightarrow> first_amount patterns t = None"
    using first_amount_no_digit by blast
  have p7: "last_opt (conversation_history s) = Some u \<and> role u = User
       \<and> current_stage s = Greeting \<and> \<not> truthy_float (requested_amount s)
       \<and> first_amount patterns (lower (content u)) = Some a \<and> a \<noteq> Finite 0 \<longrightarrow>
      requested_amount (master_agent_node e s) = Some a
      \<and> next_action (master_agent_node e s) = Some Delegate_to_sales
      \<and> current_stage (master_agent_node e s) = Sales_negotiation"
    using master_writes_amount by blast
  have p8: "last_opt (conversation_history s) = Some u \<and> role u = User
       \<and> current_stage s = Greeting \<and> \<not> truthy_float (requested_amount s)
       \<and> first_amount patterns (lower (content u)) = Some (Finite 0) \<longrightarrow>
      requested_amount (master_agent_node e s) = requested_amount s
      \<and> next_action (master_agent_node e s) = None
      \<and> current_stage (master_agent_node e s) \<in> {Greeting, Needs_assessment}"
    using master_drops_zero_amount by blast
  show ?thesis
    by (intro conjI) (rule p1 p2 p3 p4 p5 e1 e2 e3 p6 p7 p8)+
qed

theorem amount_extraction_witness:
  "re_search lakh_pattern ''2.3 lakh or 9000'' = Some [(1, ''2.3'')]
   \<and> first_amount patterns ''2.3 lakh or 9000'' = Some (Finite (7902739824639999 / 34359738368))
   \<and> re_search lakh_pattern ''take 4 l'' = None
   \<and> re_search l_pattern ''take 4 l'' = Some [(1, ''4'')]
   \<and> first_amount patterns ''take 4 l'' = Some (Finite 400000)
   \<and> re_search thousand_pattern ''75 thousand'' = Some [(1, ''75'')]
   \<and> first_amount patterns ''75 thousand'' = Some (Finite 75000)
   \<and> re_search digits4_pattern ''about 120000'' = Some [(1, ''120000'')]
   \<and> first_amount patterns ''about 120000'' = Some (Finite 120000)
   \<and> first_amount patterns ''about 120'' = None
   \<and> list_all (\<lambda>c. \<not> is_digit c) ''a few rupees''
   \<and> first_amount patterns ''a few rupees'' = None
   \<and> requested_amount (master_agent_node demo_env (staged Greeting ''need 50k'')) = Some (Finite 50000)
   \<and> first_amount patterns (lower (content (user_msg ''0000''))) = Some (Finite 0)
   \<and> requested_amount (master_agent_node demo_env (staged Greeting ''0000'')) = None
   \<and> next_action (master_agent_node demo_env (staged Greeting ''0000'')) = None"
proof -
  have a1: "re_search lakh_pattern ''2.3 lakh or 9000'' = Some [(1, ''2.3'')]" by code_simp
  have a2: "group [(1, ''2.3'')] 1 = Some ''2.3''" by code_simp
  have a3: "fmul (float_of_str ''2.3'') 100000 = Finite (7902739824639999 / 34359738368)"
    by code_simp
  have b1: "re_search lakh_pattern ''take 4 l'' = None" by code_simp
  have b2: "re_search l_pattern ''take 4 l'' = Some [(1, ''4'')]" by code_simp
  have b3: "group [(1, ''4'')] 1 = Some ''4''" by code_simp
  have b4: "fmul (float_of_str ''4'') 100000 = Finite 400000" by code_simp
  have c1: "re_search lakh_pattern ''75 thousand'' = None" by code_simp
  have c2: "re_search l_pattern ''75 thousand'' = None" by code_simp
  have c3: "re_search thousand_pattern ''75 thousand'' = Some [(1, ''75'')]" by code_simp
  have c4: "group [(1, ''75'')] 1 = Some ''75''" by code_simp
  have c5: "fmul (float_of_str ''75'') 1000 = Finite 75000" by code_simp
  have d1: "re_search lakh_pattern ''about 120000'' = None" by code_simp
  have d2: "re_search l_pattern ''about 120000'' = None" by code_simp
  have d3: "re_search thousand_pattern ''about 120000'' = None" by code_simp
  have d4: "re_search digits4_pattern ''about 120000'' = Some [(1, ''120000'')]" by code_simp
  have d5: "group [(1, ''120000'')] 1 = Some ''120000''" by code_simp
  have d6: "fmul (float_of_str ''120000'') 1 = Finite 120000" by code_simp
  have n1: "re_search lakh_pattern ''about 120'' = None" by code_simp
  have n2: "re_search l_pattern ''about 120'' = None" by code_simp
  have n3: "re_search thousand_pattern ''about 120'' = None" by code_simp
  have n4: "re_search digits4_pattern ''about 120'' = None" by code_simp
  have f1: "list_all (\<lambda>c. \<not> is_digit c) ''a few rupees''" by code_simp
  have w1: "last_opt (conversation_history (staged Greeting x)) = Some (user_msg x)" for x
    by (simp add: staged_def last_opt_def)
  have w2: "current_stage (staged Greeting x) = Greeting" for x
    by (simp add: staged_def)
  have w3: "\<not> truthy_float (requested_amount (staged Greeting x))" for x
    by (simp add: staged_def create_initial_state_def truthy_float_def)
  have w4: "first_amount patterns (lower (content (user_msg ''need 50k''))) = Some (Finite 50000)"
    by code_simp
  have w5: "Finite 50000 \<noteq> Finite 0"
    by simp
  have z1: "first_amount patterns (lower (content (user_msg ''0000''))) = Some (Finite 0)"
    by code_simp
  have z2: "requested_amount (staged Greeting ''0000'') = None"
    by (simp add: staged_def create_initial_state_def)
  note p1 = amount_extraction [THEN conjunct1]
  note p2 = amount_extraction [THEN conjunct2, THEN conjunct1]
  note p3 = amount_extraction [THEN conjunct2, THEN conjunct2, THEN conjunct1]
  note p4 = amount_extraction [THEN conjunct2, THEN conjunct2, THEN conjunct2, THEN conjunct1]
  note p5 = amount_extraction [THEN conjunct2, THEN conjunct2, THEN conjunct2, THEN conjunct2,
      THEN conjunct1]
  note p9 = amount_extraction [THEN conjunct2, THEN conjunct2, THEN conjunct2, THEN conjunct2,
      THEN conjunct2, THEN conjunct2, THEN conjunct2, THEN conjunct2, THEN conjunct1]
  note p10 = amount_extraction [THEN conjunct2, THEN conjunct2, THEN conjunct2, THEN conjunct2,
      THEN conjunct2, THEN conjunct2, THEN conjunct2, THEN conjunct2, THEN conjunct2,
      THEN conjunct1]
  note p11 = amount_extraction [THEN conjunct2, THEN conjunct2, THEN conjunct2, THEN conjunct2,
      THEN conjunct2, THEN conjunct2, THEN conjunct2, THEN conjunct2, THEN conjunct2,
      THEN conjunct2]
  have r1: "first_amount patterns ''2.3 lakh or 9000'' = Some (Finite (7902739824639999 / 34359738368))"
    using p1 [of "''2.3 lakh or 9000''" "[(1, ''2.3'')]" "''2.3''"] a1 a2 by (simp add: a3)
  have r2: "first_amount patterns ''take 4 l'' = Some (Finite 400000)"
    using p2 [of "''take 4 l''" "[(1, ''4'')]" "''4''"] b1 b2 b3 by (simp add: b4)
  have r3: "first_amount patterns ''75 thousand'' = Some (Finite 75000)"
    using p3 [of "''75 thousand''" "[(1, ''75'')]" "''75''"] c1 c2 c3 c4 by (simp add: c5)
  have r4: "first_amount patterns ''about 120000'' = Some (Finite 120000)"
    using p4 [of "''about 120000''" "[(1, ''120000'')]" "''120000''"] d1 d2 d3 d4 d5
    by (simp add: d6)
  have r5: "first_amount patterns ''about 120'' = None"
    using p5 [of "''about 120''"] n1 n2 n3 n4 by simp
  have r6: "first_amount patterns ''a few rupees'' = None"
    using p9 [of "''a few rupees''"] f1 by blast
  have r7: "requested_amount (master_agent_node demo_env (staged Greeting ''need 50k''))
              = Some (Finite 50000)"
    using p10 [of "staged Greeting ''need 50k''" "user_msg ''need 50k''" "Finite 50000" demo_env]
      w1 [of "''need 50k''"] w2 [of "''need 50k''"] w3 [of "''need 50k''"] w4 w5
    by simp
  have r8: "requested_amount (master_agent_node demo_env (staged Greeting ''0000'')) = None
            \<and> next_action (master_agent_node demo_env (staged Greeting ''0000'')) = None"
    using p11 [of "staged Greeting ''0000''" "user_msg ''0000''" demo_env]
      w1 [of "''0000''"] w2 [of "''0000''"] w3 [of "''0000''"] z1 z2
    by simp
  show ?thesis
    using a1 b1 b2 c3 d4 f1 z1 r1 r2 r3 r4 r5 r6 r7 r8 by blast
qed

text \<open>
  The claim as stated fails for a parsed amount of zero: "0 lakh" matches the first
  pattern, the amount 0 is not written to the record, and the cursor stays at greeting.
\<close>

theorem zero_amount_not_written:
  "first_amount patterns (lower ''0 lakh'') = Some (Finite 0)
   \<and> current_stage (staged Greeting ''0 lakh'') = Greeting
   \<and> requested_amount (master_agent_node demo_env (staged Greeting ''0 lakh'')) = None
   \<and> current_stage (master_agent_node demo_env (staged Greeting ''0 lakh'')) = Greeting"
  by code_simp

section \<open>The log and the interaction counter\<close>

lemma grows_by_refl [simp]: "grows_by n s s"
  by (simp add: grows_by_def)

lemma grows_by_mono: "grows_by n s s' \<Longrightarrow> n \<le> k \<Longrightarrow> grows_by k s s'"
  by (auto simp: grows_by_def Let_def)

lemma grows_by_iff:
  "grows_by n s s' \<longleftrightarrow>
     (\<exists>ms. conversation_history s' = conversation_history s @ ms \<and> length ms \<le> n
          \<and> list_all (\<lambda>m. role m = Assistant) ms
          \<and> total_interactions s' = total_interactions s + int (length ms))"
proof
  assume g: "grows_by n s s'"
  let ?h = "conversation_history s" and ?h' = "conversation_history s'"
  from g have "?h' = ?h @ drop (length ?h) ?h'"
    by (metis append_take_drop_id grows_by_def)
  with g show "\<exists>ms. ?h' = ?h @ ms \<and> length ms \<le> n \<and> list_all (\<lambda>m. role m = Assistant) ms
          \<and> total_interactions s' = total_interactions s + int (length ms)"
    by (intro exI [of _ "drop (length ?h) ?h'"]) (auto simp: grows_by_def Let_def)
next
  assume "\<exists>ms. conversation_history s' = conversation_history s @ ms \<and> length ms \<le> n
          \<and> list_all (\<lambda>m. role m = Assistant) ms
          \<and> total_interactions s' = total_interactions s + int (length ms)"
  then show "grows_by n s s'"
    by (auto simp: grows_by_def Let_def)
qed

lemma grows_by_trans:
  assumes "grows_by a s s1" and "grows_by b s1 s2"
  shows "grows_by (a + b) s s2"
proof -
  from assms(1) obtain ms where 1: "conversation_history s1 = conversation_history s @ ms"
    "length ms \<le> a" "list_all (\<lambda>m. role m = Assistant) ms"
    "total_interactions s1 = total_interactions s + int (length ms)"
    unfolding grows_by_iff by blast
  from assms(2) obtain ns where 2: "conversation_history s2 = conversation_history s1 @ ns"
    "length ns \<le> b" "list_all (\<lambda>m. role m = Assistant) ns"
    "total_interactions s2 = total_interactions s1 + int (length ns)"
    unfolding grows_by_iff by blast
  show ?thesis
    unfolding grows_by_iff using 1 2 by (intro exI [of _ "ms @ ns"]) auto
qed

lemma grows_by_add_message [simp]:
  "grows_by (Suc n) s (add_message s Assistant c a)"
  by (simp add: grows_by_iff add_message_def)

text \<open>A record that agrees with another on the log and the counter grows like it.\<close>

lemma grows_by_cong:
  assumes "conversation_history s' = conversation_history t'"
    and "total_interactions s' = total_interactions t'"
  shows "grows_by n s s' = grows_by n s t'"
  using assms by (simp add: grows_by_def)

lemma grows_by_cong_left:
  assumes "conversation_history s = conversation_history t"
    and "total_interactions s = total_interactions t"
  shows "grows_by n s s' = grows_by n t s'"
  using assms by (simp add: grows_by_def)

lemma dna_state:
  "snd (snd (determine_next_action c m s)) = s
   \<or> (\<exists>a. snd (snd (determine_next_action c m s)) = s\<lparr> requested_amount := a \<rparr>)"
  by (cases c) (auto simp: determine_next_action_def Let_def split: option.splits decision.splits)

lemma dna_log:
  "conversation_history (snd (snd (determine_next_action c m s))) = conversation_history s"
  "total_interactions (snd (snd (determine_next_action c m s))) = total_interactions s"
  using dna_state [of c m s] by auto

lemma master_node_log:
  "conversation_history (master_agent_node e s) =
     (case last_opt (conversation_history s) of
        None \<Rightarrow> [\<lparr> role = Assistant, content = generate_greeting (customer_name s),
                   agent = Some Master_agent \<rparr>]
      | Some m \<Rightarrow>
          if role m = User
          then conversation_history s
               @ [\<lparr> role = Assistant, content = llm_reply e s (content m), agent = Some Master_agent \<rparr>]
          else conversation_history s)"
  "total_interactions (master_agent_node e s) =
     (case last_opt (conversation_history s) of
        None \<Rightarrow> total_interactions s + 1
      | Some m \<Rightarrow> if role m = User then total_interactions s + 1 else total_interactions s)"
proof -
  have n: "last_opt (conversation_history s) = None \<Longrightarrow> conversation_history s = []"
    by (cases "conversation_history s" rule: rev_cases) simp_all
  show "conversation_history (master_agent_node e s) =
     (case last_opt (conversation_history s) of
        None \<Rightarrow> [\<lparr> role = Assistant, content = generate_greeting (customer_name s),
                   agent = Some Master_agent \<rparr>]
      | Some m \<Rightarrow>
          if role m = User
          then conversation_history s
               @ [\<lparr> role = Assistant, content = llm_reply e s (content m), agent = Some Master_agent \<rparr>]
          else conversation_history s)"
    using n
    by (simp add: master_agent_node_def master_process_message_def add_message_def Let_def
        dna_log split_beta split: option.splits)
  show "total_interactions (master_agent_node e s) =
     (case last_opt (conversation_history s) of
        None \<Rightarrow> total_interactions s + 1
      | Some m \<Rightarrow> if role m = User then total_interactions s + 1 else total_interactions s)"
    by (simp add: master_agent_node_def master_process_message_def add_message_def Let_def
        dna_log split_beta split: option.splits)
qed

lemma master_grows: "grows_by 1 s (master_agent_node e s)"
proof -
  have n: "last_opt (conversation_history s) = None \<Longrightarrow> conversation_history s = []"
    by (cases "conversation_history s" rule: rev_cases) simp_all
  show ?thesis
    unfolding grows_by_iff master_node_log using n by (auto split: option.splits)
qed

lemma grows_by_field_updates [simp]:
  "grows_by n s (s'\<lparr> customer_id := v0 \<rparr>) = grows_by n s s'"
  "grows_by n s (s'\<lparr> customer_name := v1 \<rparr>) = grows_by n s s'"
  "grows_by n s (s'\<lparr> customer_phone := v2 \<rparr>) = grows_by n s s'"
  "grows_by n s (s'\<lparr> current_stage := v3 \<rparr>) = grows_by n s s'"
  "grows_by n s (s'\<lparr> active_agent := v4 \<rparr>) = grows_by n s s'"
  "grows_by n s (s'\<lparr> next_action := v5 \<rparr>) = grows_by n s s'"
  "grows_by n s (s'\<lparr> requested_amount := v6 \<rparr>) = grows_by n s s'"
  "grows_by n s (s'\<lparr> approved_amount := v7 \<rparr>) = grows_by n s s'"
  "grows_by n s (s'\<lparr> tenure_months := v8 \<rparr>) = grows_by n s s'"
  "grows_by n s (s'\<lparr> interest_rate := v9 \<rparr>) = grows_by n s s'"
  "grows_by n s (s'\<lparr> monthly_emi := v10 \<rparr>) = grows_by n s s'"
  "grows_by n s (s'\<lparr> customer_needs := v11 \<rparr>) = grows_by n s s'"
  "grows_by n s (s'\<lparr> recommended_offers := v12 \<rparr>) = grows_by n s s'"
  "grows_by n s (s'\<lparr> selected_offer := v13 \<rparr>) = grows_by n s s'"
  "grows_by n s (s'\<lparr> kyc_verified := v14 \<rparr>) = grows_by n s s'"
  "grows_by n s (s'\<lparr> kyc_pan := v15 \<rparr>) = grows_by n s s'"
  "grows_by n s (s'\<lparr> kyc_aadhaar_last4 := v16 \<rparr>) = grows_by n s s'"
  "grows_by n s (s'\<lparr> kyc_dob := v17 \<rparr>) = grows_by n s s'"
  "grows_by n s (s'\<lparr> kyc_email := v18 \<rparr>) = grows_by n s s'"
  "grows_by n s (s'\<lparr> alt_phone := v19 \<rparr>) = grows_by n s s'"
  "grows_by n s (s'\<lparr> phone_verified := v20 \<rparr>) = grows_by n s s'"
  "grows_by n s (s'\<lparr> address_verified := v21 \<rparr>) = grows_by n s s'"
  "grows_by n s (s'\<lparr> otp_sent := v22 \<rparr>) = grows_by n s s'"
  "grows_by n s (s'\<lparr> otp_attempts := v23 \<rparr>) = grows_by n s s'"
  "grows_by n s (s'\<lparr> otp_provider := v24 \<rparr>) = grows_by n s s'"
  "grows_by n s (s'\<lparr> otp_code := v25 \<rparr>) = grows_by n s s'"
  "grows_by n s (s'\<lparr> otp_phone := v26 \<rparr>) = grows_by n s s'"
  "grows_by n s (s'\<lparr> otp_resend_count := v27 \<rparr>) = grows_by n s s'"
  "grows_by n s (s'\<lparr> credit_score := v28 \<rparr>) = grows_by n s s'"
  "grows_by n s (s'\<lparr> salary_slip_uploaded := v29 \<rparr>) = grows_by n s s'"
  "grows_by n s (s'\<lparr> total_monthly_obligation := v30 \<rparr>) = grows_by n s s'"
  "grows_by n s (s'\<lparr> emi_to_income_ratio := v31 \<rparr>) = grows_by n s s'"
  "grows_by n s (s'\<lparr> risk_score := v32 \<rparr>) = grows_by n s s'"
  "grows_by n s (s'\<lparr> underwriting_decision := v33 \<rparr>) = grows_by n s s'"
  "grows_by n s (s'\<lparr> rejection_reason := v34 \<rparr>) = grows_by n s s'"
  "grows_by n s (s'\<lparr> conditional_requirements := v35 \<rparr>) = grows_by n s s'"
  "grows_by n s (s'\<lparr> underwriting_recommendations := v36 \<rparr>) = grows_by n s s'"
  "grows_by n s (s'\<lparr> sanction_letter_url := v37 \<rparr>) = grows_by n s s'"
  "grows_by n s (s'\<lparr> sanction_letter_ref_no := v38 \<rparr>) = grows_by n s s'"
  "grows_by n s (s'\<lparr> application_status := v39 \<rparr>) = grows_by n s s'"
  "grows_by n s (s'\<lparr> last_error := v40 \<rparr>) = grows_by n s s'"
  by (simp_all add: grows_by_def)

lemma present_offers_grows: "grows_by (Suc 0) s (present_offers e s)"
  by (simp add: present_offers_def grows_by_def add_message_def split: sales_result.splits)

lemma negotiate_grows: "grows_by (Suc 0) s (negotiate e s m x)"
  by (simp add: negotiate_def grows_by_def add_message_def Let_def)

lemma sales_grows: "grows_by 1 s (sales_agent_node e s)"
proof -
  have sel: "grows_by (Suc 0) s ((add_message s Assistant c (Some Sales_agent))
               \<lparr> selected_offer := Some sel,
                 tenure_months := Some (offer_tenure_months sel),
                 interest_rate := Some (offer_interest_rate sel),
                 monthly_emi := Some (offer_monthly_emi sel),
                 active_agent := Master_agent, next_action := None \<rparr>)" for c sel
    by simp
  show ?thesis
    unfolding sales_agent_node_def Let_def
    by (simp add: present_offers_grows negotiate_grows split: option.splits)
qed

lemma underwriting_grows: "grows_by 1 s (underwriting_agent_node e s)"
  by (simp add: underwriting_agent_node_def grows_by_def add_message_def Let_def
      split: uw_result.splits)

lemma sanction_grows: "grows_by 1 s (sanction_agent_node e s)"
  by (simp add: sanction_agent_node_def grows_by_def add_message_def split: sanction_result.splits)

lemma grows_by_field_updates_left [simp]:
  "grows_by n (s\<lparr> customer_id := v0 \<rparr>) s' = grows_by n s s'"
  "grows_by n (s\<lparr> customer_name := v1 \<rparr>) s' = grows_by n s s'"
  "grows_by n (s\<lparr> customer_phone := v2 \<rparr>) s' = grows_by n s s'"
  "grows_by n (s\<lparr> current_stage := v3 \<rparr>) s' = grows_by n s s'"
  "grows_by n (s\<lparr> active_agent := v4 \<rparr>) s' = grows_by n s s'"
  "grows_by n (s\<lparr> next_action := v5 \<rparr>) s' = grows_by n s s'"
  "grows_by n (s\<lparr> requested_amount := v6 \<rparr>) s' = grows_by n s s'"
  "grows_by n (s\<lparr> approved_amount := v7 \<rparr>) s' = grows_by n s s'"
  "grows_by n (s\<lparr> tenure_months := v8 \<rparr>) s' = grows_by n s s'"
  "grows_by n (s\<lparr> interest_rate := v9 \<rparr>) s' = grows_by n s s'"
  "grows_by n (s\<lparr> monthly_emi := v10 \<rparr>) s' = grows_by n s s'"
  "grows_by n (s\<lparr> customer_needs := v11 \<rparr>) s' = grows_by n s s'"
  "grows_by n (s\<lparr> recommended_offers := v12 \<rparr>) s' = grows_by n s s'"
  "grows_by n (s\<lparr> selected_offer := v13 \<rparr>) s' = grows_by n s s'"
  "grows_by n (s\<lparr> kyc_verified := v14 \<rparr>) s' = grows_by n s s'"
  "grows_by n (s\<lparr> kyc_pan := v15 \<rparr>) s' = grows_by n s s'"
  "grows_by n (s\<lparr> kyc_aadhaar_last4 := v16 \<rparr>) s' = grows_by n s s'"
  "grows_by n (s\<lparr> kyc_dob := v17 \<rparr>) s' = grows_by n s s'"
  "grows_by n (s\<lparr> kyc_email := v18 \<rparr>) s' = grows_by n s s'"
  "grows_by n (s\<lparr> alt_phone := v19 \<rparr>) s' = grows_by n s s'"
  "grows_by n (s\<lparr> phone_verified := v20 \<rparr>) s' = grows_by n s s'"
  "grows_by n (s\<lparr> address_verified := v21 \<rparr>) s' = grows_by n s s'"
  "grows_by n (s\<lparr> otp_sent := v22 \<rparr>) s' = grows_by n s s'"
  "grows_by n (s\<lparr> otp_attempts := v23 \<rparr>) s' = grows_by n s s'"
  "grows_by n (s\<lparr> otp_provider := v24 \<rparr>) s' = grows_by n s s'"
  "grows_by n (s\<lparr> otp_code := v25 \<rparr>) s' = grows_by n s s'"
  "grows_by n (s\<lparr> otp_phone := v26 \<rparr>) s' = grows_by n s s'"
  "grows_by n (s\<lparr> otp_resend_count := v27 \<rparr>) s' = grows_by n s s'"
  "grows_by n (s\<lparr> credit_score := v28 \<rparr>) s' = grows_by n s s'"
  "grows_by n (s\<lparr> salary_slip_uploaded := v29 \<rparr>) s' = grows_by n s s'"
  "grows_by n (s\<lparr> total_monthly_obligation := v30 \<rparr>) s' = grows_by n s s'"
  "grows_by n (s\<lparr> emi_to_income_ratio := v31 \<rparr>) s' = grows_by n s s'"
  "grows_by n (s\<lparr> risk_score := v32 \<rparr>) s' = grows_by n s s'"
  "grows_by n (s\<lparr> underwriting_decision := v33 \<rparr>) s' = grows_by n s s'"
  "grows_by n (s\<lparr> rejection_reason := v34 \<rparr>) s' = grows_by n s s'"
  "grows_by n (s\<lparr> conditional_requirements := v35 \<rparr>) s' = grows_by n s s'"
  "grows_by n (s\<lparr> underwriting_recommendations := v36 \<rparr>) s' = grows_by n s s'"
  "grows_by n (s\<lparr> sanction_letter_url := v37 \<rparr>) s' = grows_by n s s'"
  "grows_by n (s\<lparr> sanction_letter_ref_no := v38 \<rparr>) s' = grows_by n s s'"
  "grows_by n (s\<lparr> application_status := v39 \<rparr>) s' = grows_by n s s'"
  "grows_by n (s\<lparr> last_error := v40 \<rparr>) s' = grows_by n s s'"
  by (simp_all add: grows_by_def)

lemma grows_by_add_message_upd:
  assumes "conversation_history t = conversation_history s"
    and "total_interactions t = total_interactions s"
  shows "grows_by (Suc 0) s (add_message t Assistant c a)"
  using assms by (simp add: grows_by_def add_message_def)

lemma request_otp_grows: "grows_by (Suc 0) s (request_otp e s cid)"
  by (simp add: request_otp_def Let_def split_beta)

lemma check_otp_grows: "grows_by (Suc 0) s (check_otp e s m)"
  by (simp add: check_otp_def Let_def)

lemma verify_address_block_grows:
  assumes "verify_address_block e s m = Inr s'"
  shows "grows_by (Suc 0) s s'"
  using assms
  by (auto simp: verify_address_block_def Let_def split_beta split: sum.splits if_splits)

lemma capture_kyc_log:
  "conversation_history (capture_kyc s m) = conversation_history s
     \<and> total_interactions (capture_kyc s m) = total_interactions s
   \<or> (\<exists>c. conversation_history (capture_kyc s m)
              = conversation_history s @ [\<lparr> role = Assistant, content = c, agent = Some Verification_agent \<rparr>]
          \<and> total_interactions (capture_kyc s m) = total_interactions s + 1)"
  unfolding capture_kyc_def Let_def
  by (simp add: add_message_def split: option.splits)

lemma capture_kyc_grows: "grows_by (Suc 0) s (capture_kyc s m)"
  using capture_kyc_log [of s m] by (auto simp: grows_by_iff)

lemma confirm_identity_grows: "grows_by (Suc 0) s (confirm_identity s)"
  by (simp add: confirm_identity_def)

lemma verification_node_start:
  assumes "\<not> verification_started s" and "\<not> otp_sent s"
  shows "verification_agent_node e s =
           (case start_verification e s of
              Start_ok message c \<Rightarrow>
                Inr ((add_message s Assistant message (Some Verification_agent))
                       \<lparr> active_agent := Master_agent, next_action := None \<rparr>)
            | Start_failed err \<Rightarrow>
                Inr (s\<lparr> active_agent := Master_agent, last_error := Some err \<rparr>))"
  using assms by (simp add: verification_agent_node_def Let_def)

lemma verification_node_request:
  assumes "verification_started s \<or> otp_sent s"
    and "m = or_empty (map_option strip (last_user_content (conversation_history s)))"
    and "m \<noteq> []" and "any_in otp_keywords (lower m)" and "truthy_str (customer_id s)"
  shows "verification_agent_node e s = Inr (request_otp e s (the (customer_id s)))"
  using assms by (auto simp: verification_agent_node_def Let_def)

lemma verification_node_rest:
  assumes "verification_started s \<or> otp_sent s"
    and "m = or_empty (map_option strip (last_user_content (conversation_history s)))"
    and "\<not> (m \<noteq> [] \<and> any_in otp_keywords (lower m) \<and> truthy_str (customer_id s))"
  shows "verification_agent_node e s =
           (let s1 = (if m \<noteq> [] \<and> found otp_token_pattern m then check_otp e s m else s) in
            if m \<noteq> [] then
              (case verify_address_block e s1 m of
                 Inl err \<Rightarrow> Inl err
               | Inr s2 \<Rightarrow>
                   Inr ((confirm_identity (capture_kyc s2 m))
                          \<lparr> active_agent := Master_agent, next_action := None \<rparr>))
            else Inr ((confirm_identity s1)\<lparr> active_agent := Master_agent, next_action := None \<rparr>))"
  using assms by (auto simp: verification_agent_node_def Let_def)

lemma verification_grows:
  assumes "verification_agent_node e s = Inr s'"
  shows "grows_by 4 s s'"
proof -
  define m where "m = or_empty (map_option strip (last_user_content (conversation_history s)))"
  consider (start) "\<not> verification_started s" "\<not> otp_sent s"
    | (request) "verification_started s \<or> otp_sent s"
        "m \<noteq> []" "any_in otp_keywords (lower m)" "truthy_str (customer_id s)"
    | (rest) "verification_started s \<or> otp_sent s"
        "\<not> (m \<noteq> [] \<and> any_in otp_keywords (lower m) \<and> truthy_str (customer_id s))"
    by blast
  then show ?thesis
  proof cases
    case start
    have "grows_by (Suc 0) s s'"
      using assms unfolding verification_node_start [OF start]
      by (auto split: start_result.splits)
    then show ?thesis by (rule grows_by_mono) simp
  next
    case request
    have "s' = request_otp e s (the (customer_id s))"
      using assms verification_node_request [OF request(1) m_def request(2-4), of e] by simp
    then have "grows_by (Suc 0) s s'"
      by (simp add: request_otp_grows)
    then show ?thesis by (rule grows_by_mono) simp
  next
    case rest
    define s1 where "s1 = (if m \<noteq> [] \<and> found otp_token_pattern m then check_otp e s m else s)"
    have g1: "grows_by (Suc 0) s s1"
      by (simp add: s1_def check_otp_grows)
    note node = verification_node_rest [OF rest(1) m_def rest(2), of e, folded s1_def]
    show ?thesis
    proof (cases "m = []")
      case True
      then have "s' = (confirm_identity s1)\<lparr> active_agent := Master_agent, next_action := None \<rparr>"
        using assms node by (simp add: Let_def)
      then have "grows_by (Suc 0) s1 s'"
        by (simp add: confirm_identity_grows)
      from grows_by_trans [OF g1 this] show ?thesis
        by (rule grows_by_mono) simp
    next
      case False
      then obtain s2 where a: "verify_address_block e s1 m = Inr s2"
        and s': "s' = (confirm_identity (capture_kyc s2 m))
                        \<lparr> active_agent := Master_agent, next_action := None \<rparr>"
        using assms node by (auto simp: Let_def split: sum.splits)
      have g2: "grows_by (Suc 0) s1 s2"
        using a by (rule verify_address_block_grows)
      have g3: "grows_by (Suc 0) s2 (capture_kyc s2 m)"
        by (rule capture_kyc_grows)
      have g4: "grows_by (Suc 0) (capture_kyc s2 m) s'"
        by (simp add: s' confirm_identity_grows)
      from grows_by_trans [OF grows_by_trans [OF grows_by_trans [OF g1 g2] g3] g4]
      show ?thesis
        by (rule grows_by_mono) simp
    qed
  qed
qed

lemma run_node_grows:
  assumes "run_node e nd s = Inr s'"
  shows "grows_by (if nd = Verification_agent then 4 else 1) s s'"
proof (cases nd)
  case Master_agent
  then show ?thesis using assms master_grows [of s e] by (auto simp: run_node_def)
next
  case Sales_agent
  then show ?thesis using assms sales_grows [of s e] by (auto simp: run_node_def)
next
  case Verification_agent
  then show ?thesis using assms verification_grows [of e s s'] by (auto simp: run_node_def)
next
  case Underwriting_agent
  then show ?thesis using assms underwriting_grows [of s e] by (auto simp: run_node_def)
next
  case Sanction_agent
  then show ?thesis using assms sanction_grows [of s e] by (auto simp: run_node_def)
qed

lemma invoke_from_grows:
  assumes "invoke_from e limit nd s = Inr (s', nodes)"
  shows "grows_by (length nodes + 3 * count_list nodes Verification_agent) s s'"
  using assms
proof (induction limit arbitrary: nd s s' nodes)
  case 0
  then show ?case by simp
next
  case (Suc limit)
  from Suc.prems obtain s1 where r: "run_node e nd s = Inr s1"
    by (auto split: sum.splits)
  have g1: "grows_by (if nd = Verification_agent then 4 else 1) s s1"
    using r by (rule run_node_grows)
  show ?case
  proof (cases "next_node nd s1")
    case None
    then have "s' = s1" "nodes = [nd]"
      using Suc.prems r by auto
    then show ?thesis using g1 by (auto elim: grows_by_mono)
  next
    case (Some nd')
    then obtain rest_nodes where i: "invoke_from e limit nd' s1 = Inr (s', rest_nodes)"
      and n: "nodes = nd # rest_nodes"
      using Suc.prems r by (auto split: sum.splits)
    have g2: "grows_by (length rest_nodes + 3 * count_list rest_nodes Verification_agent) s1 s'"
      using i by (rule Suc.IH)
    from grows_by_trans [OF g1 g2] show ?thesis
      by (rule grows_by_mono) (simp add: n)
  qed
qed

lemma grows_by_length:
  assumes "grows_by n s s'"
  shows "length (conversation_history s) \<le> length (conversation_history s')"
  using assms by (simp add: grows_by_def Let_def)

lemma grows_by_counted:
  assumes "grows_by n s s'"
    and "total_interactions s = int (length (conversation_history s))"
  shows "total_interactions s' = int (length (conversation_history s'))"
  using assms by (auto simp: grows_by_iff)

lemma invoke_after_user:
  assumes "invoke e limit s = Inr (s', nodes)"
    and "last_opt (conversation_history s) = Some u" and "role u = User"
  shows "length (conversation_history s) + 1 \<le> length (conversation_history s')"
proof (cases limit)
  case 0
  then show ?thesis using assms(1) by (simp add: invoke_def)
next
  case (Suc k)
  let ?s1 = "master_agent_node e s"
  have l1: "length (conversation_history ?s1) = length (conversation_history s) + 1"
    using assms(2,3) by (simp add: master_node_log)
  show ?thesis
  proof (cases "next_node Master_agent ?s1")
    case None
    then have "s' = ?s1"
      using assms(1) Suc by (simp add: invoke_def run_node_def)
    then show ?thesis using l1 by simp
  next
    case (Some nd')
    then obtain rest_nodes where "invoke_from e k nd' ?s1 = Inr (s', rest_nodes)"
      using assms(1) Suc by (auto simp: invoke_def run_node_def split: sum.splits)
    from grows_by_length [OF invoke_from_grows [OF this]] show ?thesis
      using l1 by simp
  qed
qed

lemma process_message_step:
  assumes "sessions sid = Some s0"
    and "process_message e limit sessions sid msg = Inr (sessions', r)"
  shows "\<exists>s' nodes. invoke e limit (add_message s0 User msg None) = Inr (s', nodes)
           \<and> sessions' = sessions(sid \<mapsto> s') \<and> r = Success (last_response s') s'"
  using assms by (auto simp: process_message_def split: sum.splits)

lemma add_user_counted:
  assumes "total_interactions s = int (length (conversation_history s))"
  shows "total_interactions (add_message s User msg None)
           = int (length (conversation_history (add_message s User msg None)))"
  using assms by (simp add: add_message_def)

lemma process_message_counted:
  assumes "sessions sid = Some s0"
    and "total_interactions s0 = int (length (conversation_history s0))"
    and "process_message e limit sessions sid msg = Inr (sessions', r)"
  shows "\<exists>s'. sessions' sid = Some s'
           \<and> total_interactions s' = int (length (conversation_history s'))
           \<and> total_interactions s0 + 2 \<le> total_interactions s'"
proof -
  from process_message_step [OF assms(1,3)] obtain s' nodes where
    i: "invoke e limit (add_message s0 User msg None) = Inr (s', nodes)"
    and ss: "sessions' = sessions(sid \<mapsto> s')"
    by blast
  let ?s = "add_message s0 User msg None"
  have c: "total_interactions s' = int (length (conversation_history s'))"
    using grows_by_counted [OF invoke_from_grows [OF i [unfolded invoke_def]] add_user_counted [OF assms(2)]] .
  have u: "last_opt (conversation_history ?s) = Some \<lparr> role = User, content = msg, agent = None \<rparr>"
    by (simp add: add_message_def)
  have "length (conversation_history ?s) + 1 \<le> length (conversation_history s')"
    using invoke_after_user [OF i u] by simp
  then have "length (conversation_history s0) + 2 \<le> length (conversation_history s')"
    by (simp add: add_message_def)
  then show ?thesis
    using c ss assms(2) by simp
qed

lemma process_messages_counted:
  assumes "sessions sid = Some s0"
    and "total_interactions s0 = int (length (conversation_history s0))"
    and "process_messages calls sessions sid = Inr sessions'"
  shows "\<exists>s. sessions' sid = Some s
           \<and> total_interactions s = int (length (conversation_history s))
           \<and> total_interactions s0 + 2 * int (length calls) \<le> total_interactions s"
  using assms
proof (induction calls arbitrary: sessions s0)
  case Nil
  then show ?case by simp
next
  case (Cons c calls)
  obtain e limit msg where c: "c = (e, limit, msg)"
    by (cases c) auto
  from Cons.prems(3) obtain sessions1 r where
    p: "process_message e limit sessions sid msg = Inr (sessions1, r)"
    and rest: "process_messages calls sessions1 sid = Inr sessions'"
    by (auto simp: c split: sum.splits)
  from process_message_counted [OF Cons.prems(1,2) p] obtain s1 where
    s1: "sessions1 sid = Some s1" "total_interactions s1 = int (length (conversation_history s1))"
      "total_interactions s0 + 2 \<le> total_interactions s1"
    by blast
  from Cons.IH [OF s1(1,2) rest] obtain s where
    "sessions' sid = Some s" "total_interactions s = int (length (conversation_history s))"
    "total_interactions s1 + 2 * int (length calls) \<le> total_interactions s"
    by blast
  then show ?case using s1(3) by auto
qed

text \<open>
  C2, as the code has it. \<open>add_message\<close> increments the counter for every message
  it appends, from the user or from a stage. On a session created by
  \<open>create_session\<close>, after any sequence of completed calls, the counter equals the
  number of messages in the log, which is at least two for every completed call (the
  inbound message and the reply of the orchestrator).
\<close>

theorem interactions_count_messages:
  assumes "process_messages calls (create_session sessions session_id cid) session_id = Inr sessions'"
  shows "\<exists>s. sessions' session_id = Some s
           \<and> total_interactions s = int (length (conversation_history s))
           \<and> 2 * int (length calls) \<le> total_interactions s"
proof -
  have a: "(create_session sessions session_id cid) session_id = Some (create_initial_state cid)"
    by (simp add: create_session_def)
  have b: "total_interactions (create_initial_state cid)
             = int (length (conversation_history (create_initial_state cid)))"
    by (simp add: create_initial_state_def)
  have z: "total_interactions (create_initial_state cid) = 0"
    by (simp add: create_initial_state_def)
  from process_messages_counted [OF a b assms] show ?thesis
    by (simp add: z)
qed

theorem interactions_count_messages_witness:
  "\<exists>sessions' s.
     process_messages [(demo_env, 25, ''hello'')] (create_session Map.empty ''s1'' None) ''s1''
       = Inr sessions'
     \<and> sessions' ''s1'' = Some s
     \<and> total_interactions s = int (length (conversation_history s))
     \<and> total_interactions s = 2"
proof -
  let ?r = "add_message (add_message (create_initial_state None) User ''hello'' None)
              Assistant ''Noted.'' (Some Master_agent)"
  let ?ss = "(create_session Map.empty ''s1'' None)(''s1'' \<mapsto> ?r)"
  have i: "invoke demo_env 25 (add_message (create_initial_state None) User ''hello'' None)
             = Inr (?r, [Master_agent])"
    by code_simp
  have h: "process_messages [(demo_env, 25, ''hello'')] (create_session Map.empty ''s1'' None) ''s1''
             = Inr ?ss"
    by (simp add: process_message_def create_session_def i)
  have t: "total_interactions ?r = 2"
    by (simp add: add_message_def create_initial_state_def)
  from interactions_count_messages [OF h] obtain s where
    "?ss ''s1'' = Some s" "total_interactions s = int (length (conversation_history s))"
    by blast
  then show ?thesis
    using h t by (intro exI [of _ ?ss] exI [of _ s]) auto
qed

text \<open>
  The claim as stated fails after the first call: a new session that receives "hello"
  holds two messages, the inbound one and the reply, and the counter is 2.
\<close>

theorem one_call_counts_two:
  "(case process_messages [(demo_env, 25, ''hello'')] (create_session Map.empty ''s1'' None) ''s1'' of
      Inr sessions \<Rightarrow> map_option total_interactions (sessions ''s1'') = Some 2
    | Inl err \<Rightarrow> False)"
  by code_simp




section \<open>Where the one-time code is stored\<close>

lemma verification_fields_updates [simp]:
  "verification_fields (s\<lparr> customer_id := v0 \<rparr>) = verification_fields s"
  "verification_fields (s\<lparr> customer_name := v1 \<rparr>) = verification_fields s"
  "verification_fields (s\<lparr> customer_phone := v2 \<rparr>) = verification_fields s"
  "verification_fields (s\<lparr> conversation_history := v3 \<rparr>) = verification_fields s"
  "verification_fields (s\<lparr> current_stage := v4 \<rparr>) = verification_fields s"
  "verification_fields (s\<lparr> active_agent := v5 \<rparr>) = verification_fields s"
  "verification_fields (s\<lparr> next_action := v6 \<rparr>) = verification_fields s"
  "verification_fields (s\<lparr> requested_amount := v7 \<rparr>) = verification_fields s"
  "verification_fields (s\<lparr> approved_amount := v8 \<rparr>) = verification_fields s"
  "verification_fields (s\<lparr> tenure_months := v9 \<rparr>) = verification_fields s"
  "verification_fields (s\<lparr> interest_rate := v10 \<rparr>) = verification_fields s"
  "verification_fields (s\<lparr> monthly_emi := v11 \<rparr>) = verification_fields s"
  "verification_fields (s\<lparr> customer_needs := v12 \<rparr>) = verification_fields s"
  "verification_fields (s\<lparr> recommended_offers := v13 \<rparr>) = verification_fields s"
  "verification_fields (s\<lparr> selected_offer := v14 \<rparr>) = verification_fields s"
  "verification_fields (s\<lparr> kyc_verified := v15 \<rparr>) = verification_fields s"
  "verification_fields (s\<lparr> kyc_aadhaar_last4 := v16 \<rparr>) = verification_fields s"
  "verification_fields (s\<lparr> alt_phone := v17 \<rparr>) = verification_fields s"
  "verification_fields (s\<lparr> otp_attempts := v18 \<rparr>) = verification_fields s"
  "verification_fields (s\<lparr> otp_phone := v19 \<rparr>) = verification_fields s"
  "verification_fields (s\<lparr> otp_resend_count := v20 \<rparr>) = verification_fields s"
  "verification_fields (s\<lparr> credit_score := v21 \<rparr>) = verification_fields s"
  "verification_fields (s\<lparr> salary_slip_uploaded := v22 \<rparr>) = verification_fields s"
  "verification_fields (s\<lparr> total_monthly_obligation := v23 \<rparr>) = verification_fields s"
  "verification_fields (s\<lparr> emi_to_income_ratio := v24 \<rparr>) = verification_fields s"
  "verification_fields (s\<lparr> risk_score := v25 \<rparr>) = verification_fields s"
  "verification_fields (s\<lparr> underwriting_decision := v26 \<rparr>) = verification_fields s"
  "verification_fields (s\<lparr> rejection_reason := v27 \<rparr>) = verification_fields s"
  "verification_fields (s\<lparr> conditional_requirements := v28 \<rparr>) = verification_fields s"
  "verification_fields (s\<lparr> underwriting_recommendations := v29 \<rparr>) = verification_fields s"
  "verification_fields (s\<lparr> sanction_letter_url := v30 \<rparr>) = verification_fields s"
  "verification_fields (s\<lparr> sanction_letter_ref_no := v31 \<rparr>) = verification_fields s"
  "verification_fields (s\<lparr> application_status := v32 \<rparr>) = verification_fields s"
  "verification_fields (s\<lparr> total_interactions := v33 \<rparr>) = verification_fields s"
  "verification_fields (s\<lparr> last_error := v34 \<rparr>) = verification_fields s"
  by (simp_all add: verification_fields_def)

lemma verification_fields_add_message [simp]:
  "verification_fields (add_message s r c a) = verification_fields s"
  by (simp add: add_message_def)

lemma code_only_on_fallback_fields:
  "verification_fields s' = verification_fields s \<Longrightarrow>
     code_only_on_fallback s' = code_only_on_fallback s"
  by (simp add: verification_fields_def code_only_on_fallback_def)

lemma verification_idle_fields:
  "verification_fields s' = verification_fields s \<Longrightarrow>
     verification_idle s' = verification_idle s"
  by (simp add: verification_fields_def verification_idle_def verification_started_def)

lemma master_fields: "verification_fields (master_agent_node e s) = verification_fields s"
proof -
  have "verification_fields (snd (snd (determine_next_action c m s))) = verification_fields s" for c m
    using dna_state [of c m s] by auto
  then show ?thesis
    by (simp add: master_agent_node_def master_process_message_def Let_def split_beta
        split: option.splits)
qed

lemma present_offers_fields: "verification_fields (present_offers e s) = verification_fields s"
  by (simp add: present_offers_def split: sales_result.splits)

lemma negotiate_fields: "verification_fields (negotiate e s m x) = verification_fields s"
  by (simp add: negotiate_def Let_def)

lemma sales_fields: "verification_fields (sales_agent_node e s) = verification_fields s"
  unfolding sales_agent_node_def Let_def
  by (simp add: present_offers_fields negotiate_fields split: option.splits)

lemma underwriting_fields: "verification_fields (underwriting_agent_node e s) = verification_fields s"
  by (simp add: underwriting_agent_node_def Let_def split: uw_result.splits)

lemma sanction_fields: "verification_fields (sanction_agent_node e s) = verification_fields s"
  by (simp add: sanction_agent_node_def split: sanction_result.splits)

text \<open>The stored code and the provider through the blocks of the verification stage.\<close>

lemma code_only_on_fallback_updates [simp]:
  "code_only_on_fallback (s\<lparr> active_agent := a \<rparr>) = code_only_on_fallback s"
  "code_only_on_fallback (s\<lparr> next_action := b \<rparr>) = code_only_on_fallback s"
  "code_only_on_fallback (s\<lparr> last_error := c \<rparr>) = code_only_on_fallback s"
  "code_only_on_fallback (s\<lparr> otp_attempts := d \<rparr>) = code_only_on_fallback s"
  "code_only_on_fallback (s\<lparr> otp_sent := f \<rparr>) = code_only_on_fallback s"
  "code_only_on_fallback (s\<lparr> phone_verified := g \<rparr>) = code_only_on_fallback s"
  "code_only_on_fallback (s\<lparr> address_verified := h \<rparr>) = code_only_on_fallback s"
  "code_only_on_fallback (s\<lparr> kyc_verified := i \<rparr>) = code_only_on_fallback s"
  "code_only_on_fallback (s\<lparr> kyc_pan := j \<rparr>) = code_only_on_fallback s"
  "code_only_on_fallback (s\<lparr> kyc_aadhaar_last4 := k \<rparr>) = code_only_on_fallback s"
  "code_only_on_fallback (s\<lparr> kyc_dob := l \<rparr>) = code_only_on_fallback s"
  "code_only_on_fallback (s\<lparr> kyc_email := m \<rparr>) = code_only_on_fallback s"
  "code_only_on_fallback (s\<lparr> alt_phone := n \<rparr>) = code_only_on_fallback s"
  "code_only_on_fallback (s\<lparr> otp_code := None \<rparr>)"
  "code_only_on_fallback (add_message s r c' a') = code_only_on_fallback s"
  by (simp_all add: code_only_on_fallback_def add_message_def)

lemma request_otp_code:
  "code_only_on_fallback (request_otp e s cid)"
  "is_twilio_configured e \<Longrightarrow> otp_code (request_otp e s cid) = None"
  "\<not> is_twilio_configured e \<Longrightarrow> otp_provider (request_otp e s cid) = Some Demo"
  by (simp_all add: request_otp_def Let_def split_beta code_only_on_fallback_def)

lemma check_otp_code:
  "code_only_on_fallback s \<Longrightarrow> code_only_on_fallback (check_otp e s m)"
  by (simp add: check_otp_def Let_def)

lemma verify_address_block_code:
  "verify_address_block e s m = Inr s' \<Longrightarrow> code_only_on_fallback s' = code_only_on_fallback s"
  by (auto simp: verify_address_block_def Let_def split_beta split: sum.splits if_splits)

lemma capture_kyc_code: "code_only_on_fallback (capture_kyc s m) = code_only_on_fallback s"
  unfolding capture_kyc_def Let_def by (simp split: option.splits)

lemma confirm_identity_code: "code_only_on_fallback (confirm_identity s) = code_only_on_fallback s"
  by (simp add: confirm_identity_def)

lemma verification_code:
  assumes "verification_agent_node e s = Inr s'" and "code_only_on_fallback s"
  shows "code_only_on_fallback s'"
proof -
  define m where "m = or_empty (map_option strip (last_user_content (conversation_history s)))"
  consider (start) "\<not> verification_started s" "\<not> otp_sent s"
    | (request) "verification_started s \<or> otp_sent s"
        "m \<noteq> []" "any_in otp_keywords (lower m)" "truthy_str (customer_id s)"
    | (rest) "verification_started s \<or> otp_sent s"
        "\<not> (m \<noteq> [] \<and> any_in otp_keywords (lower m) \<and> truthy_str (customer_id s))"
    by blast
  then show ?thesis
  proof cases
    case start
    show ?thesis
      using assms unfolding verification_node_start [OF start]
      by (auto split: start_result.splits)
  next
    case request
    have "s' = request_otp e s (the (customer_id s))"
      using assms(1) verification_node_request [OF request(1) m_def request(2-4), of e] by simp
    then show ?thesis by (simp add: request_otp_code)
  next
    case rest
    define s1 where "s1 = (if m \<noteq> [] \<and> found otp_token_pattern m then check_otp e s m else s)"
    have c1: "code_only_on_fallback s1"
      using assms(2) by (simp add: s1_def check_otp_code)
    note node = verification_node_rest [OF rest(1) m_def rest(2), of e, folded s1_def]
    show ?thesis
    proof (cases "m = []")
      case True
      then have "s' = (confirm_identity s1)\<lparr> active_agent := Master_agent, next_action := None \<rparr>"
        using assms(1) node by (simp add: Let_def)
      then show ?thesis using c1 by (simp add: confirm_identity_code)
    next
      case False
      then obtain s2 where a: "verify_address_block e s1 m = Inr s2"
        and s': "s' = (confirm_identity (capture_kyc s2 m))
                        \<lparr> active_agent := Master_agent, next_action := None \<rparr>"
        using assms(1) node by (auto simp: Let_def split: sum.splits)
      show ?thesis
        using c1 verify_address_block_code [OF a]
        by (simp add: s' confirm_identity_code capture_kyc_code)
    qed
  qed
qed

lemma run_node_code:
  assumes "run_node e nd s = Inr s'" and "code_only_on_fallback s"
  shows "code_only_on_fallback s'"
proof (cases nd)
  case Master_agent
  then show ?thesis
    using assms code_only_on_fallback_fields [OF master_fields [of e s]] by (auto simp: run_node_def)
next
  case Sales_agent
  then show ?thesis
    using assms code_only_on_fallback_fields [OF sales_fields [of e s]] by (auto simp: run_node_def)
next
  case Verification_agent
  then show ?thesis
    using assms verification_code [of e s s'] by (auto simp: run_node_def)
next
  case Underwriting_agent
  then show ?thesis
    using assms code_only_on_fallback_fields [OF underwriting_fields [of e s]]
    by (auto simp: run_node_def)
next
  case Sanction_agent
  then show ?thesis
    using assms code_only_on_fallback_fields [OF sanction_fields [of e s]]
    by (auto simp: run_node_def)
qed

lemma invoke_from_code:
  assumes "invoke_from e limit nd s = Inr (s', nodes)" and "code_only_on_fallback s"
  shows "code_only_on_fallback s'"
  using assms
proof (induction limit arbitrary: nd s s' nodes)
  case 0
  then show ?case by simp
next
  case (Suc limit)
  from Suc.prems(1) obtain s1 where r: "run_node e nd s = Inr s1"
    by (auto split: sum.splits)
  have c1: "code_only_on_fallback s1"
    using r Suc.prems(2) by (rule run_node_code)
  show ?case
  proof (cases "next_node nd s1")
    case None
    then have "s' = s1" using Suc.prems(1) r by auto
    then show ?thesis using c1 by simp
  next
    case (Some nd')
    then obtain rest_nodes where "invoke_from e limit nd' s1 = Inr (s', rest_nodes)"
      using Suc.prems(1) r by (auto split: sum.splits)
    then show ?thesis using c1 by (rule Suc.IH)
  qed
qed

lemma process_messages_code:
  assumes "sessions sid = Some s0" and "code_only_on_fallback s0"
    and "process_messages calls sessions sid = Inr sessions'"
  shows "\<exists>s. sessions' sid = Some s \<and> code_only_on_fallback s"
  using assms
proof (induction calls arbitrary: sessions s0)
  case Nil
  then show ?case by simp
next
  case (Cons c calls)
  obtain e limit msg where c: "c = (e, limit, msg)"
    by (cases c) auto
  from Cons.prems(3) obtain sessions1 r where
    p: "process_message e limit sessions sid msg = Inr (sessions1, r)"
    and rest: "process_messages calls sessions1 sid = Inr sessions'"
    by (auto simp: c split: sum.splits)
  from process_message_step [OF Cons.prems(1) p] obtain s1 nodes where
    i: "invoke e limit (add_message s0 User msg None) = Inr (s1, nodes)"
    and ss: "sessions1 = sessions(sid \<mapsto> s1)"
    by blast
  have "code_only_on_fallback (add_message s0 User msg None)"
    using Cons.prems(2) by simp
  with i have c1: "code_only_on_fallback s1"
    unfolding invoke_def by (rule invoke_from_code)
  have "sessions1 sid = Some s1" using ss by simp
  from Cons.IH [OF this c1 rest] show ?case .
qed

text \<open>
  C6. The stored code belongs to the demo fallback: in every record a session reaches
  from a record with that property (the initial record is one), through any sequence of
  completed calls with any collaborators, a code issued by Twilio is never on the record
  and a code on the record comes from the fallback. The branch that requests a code
  through Twilio writes no code.
\<close>

theorem code_stored_only_on_fallback:
  "code_only_on_fallback (create_initial_state cid)
   \<and> (sessions session_id = Some s0 \<and> code_only_on_fallback s0
       \<and> process_messages calls sessions session_id = Inr sessions' \<longrightarrow>
      (\<exists>s. sessions' session_id = Some s
           \<and> (otp_provider s = Some Twilio \<longrightarrow> otp_code s = None)
           \<and> (otp_code s \<noteq> None \<longrightarrow> otp_provider s = Some Demo)))
   \<and> (is_twilio_configured e \<longrightarrow> otp_code (request_otp e s cust_id) = None)"
proof -
  have 1: "code_only_on_fallback (create_initial_state cid)"
    by (simp add: code_only_on_fallback_def create_initial_state_def)
  have 2: "sessions session_id = Some s0 \<and> code_only_on_fallback s0
       \<and> process_messages calls sessions session_id = Inr sessions' \<longrightarrow>
      (\<exists>s. sessions' session_id = Some s
           \<and> (otp_provider s = Some Twilio \<longrightarrow> otp_code s = None)
           \<and> (otp_code s \<noteq> None \<longrightarrow> otp_provider s = Some Demo))"
    using process_messages_code [of sessions session_id s0 calls sessions']
    by (auto simp: code_only_on_fallback_def)
  have 3: "is_twilio_configured e \<longrightarrow> otp_code (request_otp e s cust_id) = None"
    by (simp add: request_otp_code)
  show ?thesis
    using 1 2 3 by blast
qed

theorem code_stored_only_on_fallback_witness:
  "\<exists>sessions' s sessions'' t.
     [''s1'' \<mapsto> address_confirmed] ''s1'' = Some address_confirmed
     \<and> code_only_on_fallback address_confirmed
     \<and> is_twilio_configured twilio_env
     \<and> process_messages [(twilio_env, 25, ''SEND OTP'')] [''s1'' \<mapsto> address_confirmed] ''s1''
         = Inr sessions'
     \<and> sessions' ''s1'' = Some s
     \<and> otp_sent s \<and> otp_provider s = Some Twilio \<and> otp_code s = None
     \<and> process_messages [(demo_env, 25, ''SEND OTP'')] [''s1'' \<mapsto> address_confirmed] ''s1''
         = Inr sessions''
     \<and> sessions'' ''s1'' = Some t
     \<and> otp_sent t \<and> otp_provider t = Some Demo \<and> otp_code t = Some ''123456''"
proof -
  let ?ss = "[''s1'' \<mapsto> address_confirmed]"
  have h1: "?ss ''s1'' = Some address_confirmed"
    by simp
  have h2: "code_only_on_fallback address_confirmed"
    by (simp add: code_only_on_fallback_def address_confirmed_def replied_def create_initial_state_def)
  have h3: "is_twilio_configured twilio_env"
    by code_simp
  have a: "(case invoke twilio_env 25 (add_message address_confirmed User ''SEND OTP'' None) of
              Inr (r, nodes) \<Rightarrow> otp_sent r \<and> otp_provider r = Some Twilio
            | Inl err \<Rightarrow> False)"
    by code_simp
  have b: "(case invoke demo_env 25 (add_message address_confirmed User ''SEND OTP'' None) of
              Inr (r, nodes) \<Rightarrow> otp_sent r \<and> otp_provider r = Some Demo \<and> otp_code r = Some ''123456''
            | Inl err \<Rightarrow> False)"
    by code_simp
  from a obtain r nodes where
    ia: "invoke twilio_env 25 (add_message address_confirmed User ''SEND OTP'' None) = Inr (r, nodes)"
    and ra: "otp_sent r" "otp_provider r = Some Twilio"
    by (auto split: sum.splits)
  from b obtain t nodes' where
    ib: "invoke demo_env 25 (add_message address_confirmed User ''SEND OTP'' None) = Inr (t, nodes')"
    and rb: "otp_sent t" "otp_provider t = Some Demo" "otp_code t = Some ''123456''"
    by (auto split: sum.splits)
  have pa: "process_messages [(twilio_env, 25, ''SEND OTP'')] ?ss ''s1'' = Inr (?ss(''s1'' \<mapsto> r))"
    by (simp add: process_message_def ia)
  have pb: "process_messages [(demo_env, 25, ''SEND OTP'')] ?ss ''s1'' = Inr (?ss(''s1'' \<mapsto> t))"
    by (simp add: process_message_def ib)
  have "\<exists>s. (?ss(''s1'' \<mapsto> r)) ''s1'' = Some s
           \<and> (otp_provider s = Some Twilio \<longrightarrow> otp_code s = None)
           \<and> (otp_code s \<noteq> None \<longrightarrow> otp_provider s = Some Demo)"
    using h1 h2 pa
      code_stored_only_on_fallback
        [where sessions = ?ss and session_id = "''s1''" and ?s0.0 = address_confirmed
           and calls = "[(twilio_env, 25, ''SEND OTP'')]" and sessions' = "?ss(''s1'' \<mapsto> r)"]
    by blast
  then have ca: "otp_code r = None"
    using ra by simp
  show ?thesis
    using h1 h2 h3 pa pb ra rb ca
    by (intro exI [of _ "?ss(''s1'' \<mapsto> r)"] exI [of _ r] exI [of _ "?ss(''s1'' \<mapsto> t)"]
        exI [of _ t]) simp
qed

section \<open>Requesting a one-time code\<close>

lemma verification_node_untouched:
  assumes "verification_agent_node e s = Inr s'" and "verification_idle s"
  shows "verification_fields s' = verification_fields s"
proof -
  have st: "\<not> verification_started s" "\<not> otp_sent s"
    using assms(2) by (simp_all add: verification_idle_def)
  show ?thesis
    using assms(1) unfolding verification_node_start [OF st]
    by (auto split: start_result.splits)
qed

lemma run_node_untouched:
  assumes "run_node e nd s = Inr s'" and "verification_idle s"
  shows "verification_fields s' = verification_fields s"
proof (cases nd)
  case Master_agent
  then show ?thesis using assms master_fields [of e s] by (auto simp: run_node_def)
next
  case Sales_agent
  then show ?thesis using assms sales_fields [of e s] by (auto simp: run_node_def)
next
  case Verification_agent
  then show ?thesis using assms verification_node_untouched [of e s s'] by (auto simp: run_node_def)
next
  case Underwriting_agent
  then show ?thesis using assms underwriting_fields [of e s] by (auto simp: run_node_def)
next
  case Sanction_agent
  then show ?thesis using assms sanction_fields [of e s] by (auto simp: run_node_def)
qed

lemma invoke_from_untouched:
  assumes "invoke_from e limit nd s = Inr (s', nodes)" and "verification_idle s"
  shows "verification_fields s' = verification_fields s"
  using assms
proof (induction limit arbitrary: nd s s' nodes)
  case 0
  then show ?case by simp
next
  case (Suc limit)
  from Suc.prems(1) obtain s1 where r: "run_node e nd s = Inr s1"
    by (auto split: sum.splits)
  have f1: "verification_fields s1 = verification_fields s"
    using r Suc.prems(2) by (rule run_node_untouched)
  then have c1: "verification_idle s1"
    using Suc.prems(2) verification_idle_fields by blast
  show ?case
  proof (cases "next_node nd s1")
    case None
    then have "s' = s1" using Suc.prems(1) r by auto
    then show ?thesis using f1 by simp
  next
    case (Some nd')
    then obtain rest_nodes where "invoke_from e limit nd' s1 = Inr (s', rest_nodes)"
      using Suc.prems(1) r by (auto split: sum.splits)
    from Suc.IH [OF this c1] show ?thesis using f1 by simp
  qed
qed

lemma process_messages_untouched:
  assumes "sessions sid = Some s0" and "verification_idle s0"
    and "process_messages calls sessions sid = Inr sessions'"
  shows "\<exists>s. sessions' sid = Some s \<and> verification_fields s = verification_fields s0"
  using assms
proof (induction calls arbitrary: sessions s0)
  case Nil
  then show ?case by simp
next
  case (Cons c calls)
  obtain e limit msg where c: "c = (e, limit, msg)"
    by (cases c) auto
  from Cons.prems(3) obtain sessions1 r where
    p: "process_message e limit sessions sid msg = Inr (sessions1, r)"
    and rest: "process_messages calls sessions1 sid = Inr sessions'"
    by (auto simp: c split: sum.splits)
  from process_message_step [OF Cons.prems(1) p] obtain s1 nodes where
    i: "invoke e limit (add_message s0 User msg None) = Inr (s1, nodes)"
    and ss: "sessions1 = sessions(sid \<mapsto> s1)"
    by blast
  have u: "verification_idle (add_message s0 User msg None)"
    using Cons.prems(2) verification_idle_fields [OF verification_fields_add_message] by blast
  have f1: "verification_fields s1 = verification_fields s0"
    using invoke_from_untouched [OF i [unfolded invoke_def] u] by simp
  then have c1: "verification_idle s1"
    using Cons.prems(2) verification_idle_fields by blast
  have "sessions1 sid = Some s1" using ss by simp
  from Cons.IH [OF this c1 rest] show ?case using f1 by simp
qed

text \<open>
  From a new session no sequence of calls ever sends a code: the verification stage finds
  no verification signal, explains the steps and returns, and nothing else sets one.
\<close>

lemma code_never_sent_from_new_session:
  assumes "process_messages calls (create_session sessions session_id cid) session_id = Inr sessions'"
  shows "\<exists>s. sessions' session_id = Some s \<and> \<not> otp_sent s \<and> otp_code s = None
           \<and> \<not> phone_verified s"
proof -
  have a: "(create_session sessions session_id cid) session_id = Some (create_initial_state cid)"
    by (simp add: create_session_def)
  have b: "verification_idle (create_initial_state cid)"
    by (simp add: verification_idle_def verification_started_def create_initial_state_def
        truthy_str_def)
  from process_messages_untouched [OF a b assms] obtain s where
    s: "sessions' session_id = Some s"
      "verification_fields s = verification_fields (create_initial_state cid)"
    by blast
  from s(2) have "\<not> otp_sent s \<and> otp_code s = None \<and> \<not> phone_verified s"
    by (simp add: verification_fields_def create_initial_state_def)
  then show ?thesis using s(1) by blast
qed

text \<open>
  C4 at a concrete run. A new session of a customer on file receives "I need 3 lakh
  rupees", then "proceed" (the verification stage explains the steps and asks for "SEND
  OTP"), then "SEND OTP". The verification stage explains the steps once more: no code is
  sent, \<open>otp_sent\<close> stays false, and the response is the explanation again.
\<close>

theorem code_request_repeats_the_steps:
  "(case process_messages
           [(demo_env, 25, ''I need 3 lakh rupees''), (demo_env, 25, ''proceed''),
            (demo_env, 25, ''SEND OTP'')]
           (create_session Map.empty ''s1'' (Some ''CUST001'')) ''s1'' of
      Inr sessions \<Rightarrow>
        (case sessions ''s1'' of
           Some s \<Rightarrow>
             current_stage s = Verification \<and> \<not> otp_sent s \<and> otp_code s = None
             \<and> map role (conversation_history s)
                 = [User, Assistant, Assistant, User, Assistant, Assistant, User, Assistant, Assistant]
             \<and> last_response s = verification_steps_text demo_customer
         | None \<Rightarrow> False)
    | Inl err \<Rightarrow> False)"
  by code_simp

section \<open>The first call of a session\<close>

text \<open>
  The graph is invoked by \<open>process_message\<close> alone, after the inbound message has been
  appended: the orchestrator never sees an empty log there, and what it appends is the
  reply of the language model to the inbound text.
\<close>

lemma first_node_processes_user_text:
  "conversation_history (add_message state User user_message None) \<noteq> []"
  "conversation_history (master_agent_node e (add_message state User user_message None))
     = conversation_history state
       @ [\<lparr> role = User, content = user_message, agent = None \<rparr>,
          \<lparr> role = Assistant,
            content = llm_reply e (add_message state User user_message None) user_message,
            agent = Some Master_agent \<rparr>]"
  by (simp_all add: master_node_log add_message_def)

text \<open>
  C9 at a concrete run. The first call on a new session without customer id, with the
  text "I need 3 lakh rupees": the log was empty when the call came, but the cycle emits
  no greeting; the user text is processed, the amount is written, the cursor moves to
  sales\_negotiation and the sales stage is delegated to.
\<close>

theorem first_call_skips_greeting:
  "conversation_history (create_initial_state None) = []
   \<and> (case process_message demo_env 25 (create_session Map.empty ''s1'' None) ''s1''
              ''I need 3 lakh rupees'' of
        Inr (sessions, Success response result) \<Rightarrow>
          map content (conversation_history result)
            = [''I need 3 lakh rupees'', ''Noted.'', ''Here is an offer.'']
          \<and> list_all (\<lambda>m. content m \<noteq> generate_greeting None) (conversation_history result)
          \<and> current_stage result = Sales_negotiation
          \<and> requested_amount result = Some (Finite 300000)
          \<and> response = ''Here is an offer.''
      | _ \<Rightarrow> False)"
  by code_simp

end
